theory Spec2Isabelle
  imports Main "HOL-Library.Word"
begin

unbundle bit_operations_syntax

section \<open>Graphics blocklist of widget/GfxInfoBase.cpp\<close>

text \<open>
  A shallow embedding of the blocklist code of \<^verbatim>\<open>widget/GfxInfoBase.cpp\<close>: the
  text-record parser (\<^verbatim>\<open>BlocklistEntryToDriverInfo\<close>), the rule scan
  (\<^verbatim>\<open>FindBlocklistedDeviceInList\<close>), feature resolution
  (\<^verbatim>\<open>GetFeatureStatus\<close>, \<^verbatim>\<open>GetFeatureStatusImpl\<close>), the per-feature preference
  store and the replay of a downloaded batch (\<^verbatim>\<open>EvaluateDownloadedBlocklist\<close>).

  Strings (\<^verbatim>\<open>nsString\<close>, \<^verbatim>\<open>nsCString\<close>, \<^verbatim>\<open>const char*\<close>) are \<^typ>\<open>string\<close>;
  \<^verbatim>\<open>uint64_t\<close> is \<^typ>\<open>64 word\<close>, whose order is the unsigned one; \<^verbatim>\<open>int32_t\<close>
  and \<^verbatim>\<open>int64_t\<close> values that are only compared are \<^typ>\<open>int\<close>, \<^verbatim>\<open>uint32_t\<close>
  values \<^typ>\<open>nat\<close>. In/out parameters are arguments and components of the result.
  \<^verbatim>\<open>MOZ_ASSERT\<close> is compiled out of release builds and the logging calls have no
  effect on the results; both are left out, except where a release build would go on
  to dereference a null pointer.
\<close>

subsection \<open>Result codes and enumerations\<close>

text \<open>The \<^verbatim>\<open>nsresult\<close> codes the file names; \<^verbatim>\<open>NS_OK\<close> is the only success code.\<close>

datatype nsresult =
    NS_OK
  | NS_ERROR_NOT_IMPLEMENTED
  | NS_ERROR_NOT_AVAILABLE
  | NS_ERROR_FAILURE
  | NS_ERROR_INVALID_ARG
  | NS_ERROR_UNEXPECTED

definition NS_FAILED :: "nsresult \<Rightarrow> bool" where
  "NS_FAILED rv = (rv \<noteq> NS_OK)"

text \<open>
  The feature statuses of \<^verbatim>\<open>nsIGfxInfo\<close> that the file names. The interface
  definition that numbers them is not part of the sources, so the literal \<^verbatim>\<open>0\<close>
  that the early exits of \<^verbatim>\<open>FindBlocklistedDeviceInList\<close> return is kept as a
  value of its own, \<open>FEATURE_STATUS_LITERAL_0\<close>; every function below treats it like
  a status without a \<^verbatim>\<open>case\<close> label.
\<close>

datatype FeatureStatus =
    FEATURE_STATUS_OK
  | FEATURE_BLOCKED_DRIVER_VERSION
  | FEATURE_BLOCKED_DEVICE
  | FEATURE_DISCOURAGED
  | FEATURE_BLOCKED_OS_VERSION
  | FEATURE_STATUS_UNKNOWN
  | FEATURE_BLOCKED_MISMATCHED_VERSION
  | FEATURE_DENIED
  | FEATURE_ALLOW_ALWAYS
  | FEATURE_ALLOW_QUALIFIED
  | FEATURE_BLOCKED_PLATFORM_TEST
  | FEATURE_STATUS_INVALID
  | FEATURE_STATUS_LITERAL_0

text \<open>
  \<^verbatim>\<open>VersionComparisonOp\<close>: the twelve enumerators the file names, and \<open>DRIVER_OTHER\<close>
  for any other value of the enumeration type, which reaches the \<^verbatim>\<open>default\<close> arm of
  the two \<^verbatim>\<open>switch\<close> statements.
\<close>

datatype VersionComparisonOp =
    DRIVER_LESS_THAN
  | DRIVER_BUILD_ID_LESS_THAN
  | DRIVER_LESS_THAN_OR_EQUAL
  | DRIVER_BUILD_ID_LESS_THAN_OR_EQUAL
  | DRIVER_GREATER_THAN
  | DRIVER_GREATER_THAN_OR_EQUAL
  | DRIVER_EQUAL
  | DRIVER_NOT_EQUAL
  | DRIVER_BETWEEN_EXCLUSIVE
  | DRIVER_BETWEEN_INCLUSIVE
  | DRIVER_BETWEEN_INCLUSIVE_START
  | DRIVER_COMPARISON_IGNORED
  | DRIVER_OTHER nat

text \<open>\<^verbatim>\<open>OperatingSystem\<close>: the enumerators the file names; \<open>OperatingSystem_Other\<close>
  stands for the concrete systems of the missing definitions header.\<close>

datatype OperatingSystem =
    OperatingSystem_Unknown
  | OperatingSystem_Windows
  | OperatingSystem_Windows10or11
  | OperatingSystem_Windows10
  | OperatingSystem_Windows11
  | OperatingSystem_OSX
  | OperatingSystem_Other nat

datatype RefreshRateStatus =
    RefreshRateStatus_Any
  | RefreshRateStatus_AnySame
  | RefreshRateStatus_Single
  | RefreshRateStatus_MultipleSame
  | RefreshRateStatus_Mixed
  | RefreshRateStatus_Unknown

datatype BatteryStatus =
    BatteryStatus_All
  | BatteryStatus_None
  | BatteryStatus_Present

datatype ScreenSizeStatus =
    ScreenSizeStatus_All
  | ScreenSizeStatus_Small
  | ScreenSizeStatus_SmallAndMedium
  | ScreenSizeStatus_Medium
  | ScreenSizeStatus_MediumAndLarge
  | ScreenSizeStatus_Large

subsection \<open>Build configuration\<close>

text \<open>The preprocessor symbols and build constants the file tests.\<close>

record build_config =
  XP_WIN :: bool
  XP_MACOSX :: bool
  ANDROID :: bool
  MOZ_WIDGET_GTK :: bool
  kIsAndroid :: bool
  RELEASE_OR_BETA :: bool

subsection \<open>Rules\<close>

text \<open>
  \<^verbatim>\<open>GfxDriverInfo\<close>, one rule, with the fields the file reads or writes. The class is
  declared in a header that is not part of the sources: the device family \<open>'d\<close> and
  the extended version \<open>'v\<close> stay type parameters, and their operations are
  parameters of the functions that use them (record \<open>GfxDriverInfo_h\<close> below).
  \<open>mSuggestedVersion\<close> is a \<^verbatim>\<open>const char*\<close>, \<open>None\<close> when null; \<open>mDevices\<close> is a
  pointer, \<open>None\<close> when null.
\<close>

record ('d, 'v) GfxDriverInfo =
  mOperatingSystem :: OperatingSystem
  mOperatingSystemVersion :: nat
  mOperatingSystemVersionEx :: 'v
  mOperatingSystemVersionExMax :: 'v
  mOperatingSystemVersionExComparisonOp :: VersionComparisonOp
  mRefreshRateStatus :: RefreshRateStatus
  mMinRefreshRate :: int
  mMinRefreshRateMax :: int
  mMinRefreshRateComparisonOp :: VersionComparisonOp
  mMaxRefreshRate :: int
  mMaxRefreshRateMax :: int
  mMaxRefreshRateComparisonOp :: VersionComparisonOp
  mBattery :: BatteryStatus
  mScreen :: ScreenSizeStatus
  mWindowProtocol :: string
  mAdapterVendor :: string
  mDriverVendor :: string
  mDevices :: "'d option"
  mFeature :: int
  mFeatureStatus :: FeatureStatus
  mComparisonOp :: VersionComparisonOp
  mDriverVersion :: "64 word"
  mDriverVersionMax :: "64 word"
  mSuggestedVersion :: "string option"
  mModel :: string
  mHardware :: string
  mProduct :: string
  mManufacturer :: string
  mGpu2 :: bool
  mRuleId :: string

text \<open>
  What the missing \<^verbatim>\<open>GfxDriverInfo.h\<close> and the string library provide to this file:
  the sentinels \<^verbatim>\<open>GfxDriverInfo::allDriverVersions\<close>, \<^verbatim>\<open>allFeatures\<close> and
  \<^verbatim>\<open>optionalFeatures\<close>, the wildcard and vendor strings, \<^verbatim>\<open>ParseDriverVersion\<close>
  (its result and the value it leaves in the out parameter), the operations of
  \<^verbatim>\<open>GfxDeviceFamily\<close> and \<^verbatim>\<open>GfxVersionEx\<close>, and string equality under
  \<^verbatim>\<open>nsCaseInsensitiveStringComparator\<close>. All are parameters.
\<close>

record ('d, 'v) GfxDriverInfo_h =
  allDriverVersions :: "64 word"
  allFeatures :: int
  optionalFeatures :: int
  WindowProtocol_All :: string
  DeviceVendor_All :: string
  DeviceVendor_NVIDIA :: string
  DriverVendor_All :: string
  ParseDriverVersion :: "string \<Rightarrow> bool \<times> 64 word"
  DeviceFamily_new :: 'd
  DeviceFamily_Append :: "'d \<Rightarrow> string \<Rightarrow> 'd"
  DeviceFamily_IsEmpty :: "'d \<Rightarrow> bool"
  DeviceFamily_Contains :: "'d \<Rightarrow> string \<Rightarrow> nsresult"
  VersionEx_Parse :: "'v \<Rightarrow> string \<Rightarrow> 'v"
  VersionEx_Compare :: "'v \<Rightarrow> 'v \<Rightarrow> 'v \<Rightarrow> VersionComparisonOp \<Rightarrow> bool"
  EqualsIgnoreCase :: "string \<Rightarrow> string \<Rightarrow> bool"

text \<open>The feature numbers of \<^verbatim>\<open>nsIGfxInfo\<close> that the file names; parameters too.\<close>

record nsIGfxInfo =
  FEATURE_INVALID :: int
  FEATURE_START :: int
  FEATURE_COUNT :: int
  FEATURE_DIRECT2D :: int
  FEATURE_GPU_PROCESS :: int
  FEATURE_DIRECT3D_11_ANGLE :: int
  FEATURE_ALLOW_WEBGL_OUT_OF_PROCESS :: int
  FEATURE_BACKDROP_FILTER :: int
  FEATURE_HW_DECODED_VIDEO_ZERO_COPY :: int

subsection \<open>The machine\<close>

text \<open>
  What the virtual getters of the object and the services it calls return during one
  call. A getter with an out parameter is the pair of its \<^verbatim>\<open>nsresult\<close> and the value
  of the out variable after the call.
\<close>

record adapter_getters =
  GetAdapterVendorID :: "nsresult \<times> string"
  GetAdapterDeviceID :: "nsresult \<times> string"
  GetAdapterDriverVendor :: "nsresult \<times> string"
  GetAdapterDriverVersion :: "nsresult \<times> string"

datatype process_type = ParentProcess | ContentProcess | GPUProcess | OtherProcess

record ('d, 'v) machine =
  adapter :: adapter_getters
  adapter2 :: adapter_getters
  GetWindowProtocol :: "nsresult \<times> string"
  GetHasBattery :: "nsresult \<times> bool"
  OperatingSystemVersion :: nat
  OperatingSystemVersionEx :: 'v
  GetOperatingSystem :: OperatingSystem
  Hardware :: string
  Model :: string
  Product :: string
  Manufacturer :: string
  GetGfxDriverInfo :: "('d, 'v) GfxDriverInfo list"
  GetTotalScreenPixels :: int
  CurrentScreenList :: "int list"
  XRE_process :: process_type
  gfx_blocklist_all_AtStartup :: int

text \<open>
  The members of the \<^verbatim>\<open>GfxInfoBase\<close> object that \<^verbatim>\<open>GetData\<close> fills
  (\<open>this_\<close> tells them from the rule fields of the same name), the statics
  \<^verbatim>\<open>sFeatureStatus\<close> (\<open>None\<close> when null) and \<^verbatim>\<open>sShutdownOccurred\<close>, and the
  preference service: a preference is absent, an integer or a string. The override
  of a feature is an integer preference holding a status.
\<close>

record GfxInfoFeatureStatus =
  fs_feature :: int
  fs_status :: FeatureStatus
  fs_failureId :: string

datatype pref_value = PrefInt FeatureStatus | PrefString string

record GfxInfoBase_state =
  this_mScreenPixels :: int
  this_mScreenCount :: nat
  this_mMinRefreshRate :: int
  this_mMaxRefreshRate :: int
  sFeatureStatus :: "GfxInfoFeatureStatus list option"
  sShutdownOccurred :: bool
  prefs :: "string \<rightharpoonup> pref_value"

subsection \<open>The predicates of a rule\<close>

fun MatchingAllowStatus :: "FeatureStatus \<Rightarrow> bool" where
  "MatchingAllowStatus FEATURE_ALLOW_ALWAYS = True"
| "MatchingAllowStatus FEATURE_ALLOW_QUALIFIED = True"
| "MatchingAllowStatus _ = False"

definition MatchingOperatingSystems ::
  "build_config \<Rightarrow> OperatingSystem \<Rightarrow> OperatingSystem \<Rightarrow> bool" where
  "MatchingOperatingSystems b aBlockedOS aSystemOS =
     (if aBlockedOS = OperatingSystem_Unknown then False
      else if XP_WIN b \<and> aBlockedOS = OperatingSystem_Windows then True
      else if XP_WIN b \<and> aBlockedOS = OperatingSystem_Windows10or11 \<and>
              (aSystemOS = OperatingSystem_Windows10 \<or> aSystemOS = OperatingSystem_Windows11)
        then True
      else if XP_MACOSX b \<and> aBlockedOS = OperatingSystem_OSX then True
      else aSystemOS = aBlockedOS)"

fun MatchingRefreshRateStatus :: "RefreshRateStatus \<Rightarrow> RefreshRateStatus \<Rightarrow> bool" where
  "MatchingRefreshRateStatus aSystemStatus RefreshRateStatus_Any = True"
| "MatchingRefreshRateStatus aSystemStatus RefreshRateStatus_AnySame =
     (aSystemStatus = RefreshRateStatus_Single \<or> aSystemStatus = RefreshRateStatus_MultipleSame)"
| "MatchingRefreshRateStatus aSystemStatus aBlockedStatus = (aSystemStatus = aBlockedStatus)"

fun MatchingRefreshRates :: "int \<Rightarrow> int \<Rightarrow> int \<Rightarrow> VersionComparisonOp \<Rightarrow> bool" where
  "MatchingRefreshRates aSystem aBlocked aBlockedMax DRIVER_COMPARISON_IGNORED = True"
| "MatchingRefreshRates aSystem aBlocked aBlockedMax DRIVER_LESS_THAN = (aSystem < aBlocked)"
| "MatchingRefreshRates aSystem aBlocked aBlockedMax DRIVER_LESS_THAN_OR_EQUAL = (aSystem \<le> aBlocked)"
| "MatchingRefreshRates aSystem aBlocked aBlockedMax DRIVER_GREATER_THAN = (aSystem > aBlocked)"
| "MatchingRefreshRates aSystem aBlocked aBlockedMax DRIVER_GREATER_THAN_OR_EQUAL = (aSystem \<ge> aBlocked)"
| "MatchingRefreshRates aSystem aBlocked aBlockedMax DRIVER_EQUAL = (aSystem = aBlocked)"
| "MatchingRefreshRates aSystem aBlocked aBlockedMax DRIVER_NOT_EQUAL = (aSystem \<noteq> aBlocked)"
| "MatchingRefreshRates aSystem aBlocked aBlockedMax DRIVER_BETWEEN_EXCLUSIVE =
     (aSystem > aBlocked \<and> aSystem < aBlockedMax)"
| "MatchingRefreshRates aSystem aBlocked aBlockedMax DRIVER_BETWEEN_INCLUSIVE =
     (aSystem \<ge> aBlocked \<and> aSystem \<le> aBlockedMax)"
| "MatchingRefreshRates aSystem aBlocked aBlockedMax DRIVER_BETWEEN_INCLUSIVE_START =
     (aSystem \<ge> aBlocked \<and> aSystem < aBlockedMax)"
| "MatchingRefreshRates aSystem aBlocked aBlockedMax _ = False"

fun MatchingBattery :: "BatteryStatus \<Rightarrow> bool \<Rightarrow> bool" where
  "MatchingBattery BatteryStatus_All aHasBattery = True"
| "MatchingBattery BatteryStatus_None aHasBattery = (\<not> aHasBattery)"
| "MatchingBattery BatteryStatus_Present aHasBattery = aHasBattery"

definition kMaxSmallPixels :: int where
  "kMaxSmallPixels = 2304000"

definition kMaxMediumPixels :: int where
  "kMaxMediumPixels = 4953600"

fun MatchingScreenSize :: "ScreenSizeStatus \<Rightarrow> int \<Rightarrow> bool" where
  "MatchingScreenSize ScreenSizeStatus_All aScreenPixels = True"
| "MatchingScreenSize ScreenSizeStatus_Small aScreenPixels = (aScreenPixels \<le> kMaxSmallPixels)"
| "MatchingScreenSize ScreenSizeStatus_SmallAndMedium aScreenPixels =
     (aScreenPixels \<le> kMaxMediumPixels)"
| "MatchingScreenSize ScreenSizeStatus_Medium aScreenPixels =
     (aScreenPixels > kMaxSmallPixels \<and> aScreenPixels \<le> kMaxMediumPixels)"
| "MatchingScreenSize ScreenSizeStatus_MediumAndLarge aScreenPixels =
     (aScreenPixels > kMaxSmallPixels)"
| "MatchingScreenSize ScreenSizeStatus_Large aScreenPixels = (aScreenPixels > kMaxMediumPixels)"

definition DoesWindowProtocolMatch ::
  "('d, 'v) GfxDriverInfo_h \<Rightarrow> string \<Rightarrow> string \<Rightarrow> bool" where
  "DoesWindowProtocolMatch h aBlocklistWindowProtocol aWindowProtocol =
     (EqualsIgnoreCase h aBlocklistWindowProtocol aWindowProtocol \<or>
      EqualsIgnoreCase h aBlocklistWindowProtocol (WindowProtocol_All h))"

definition DoesVendorMatch :: "('d, 'v) GfxDriverInfo_h \<Rightarrow> string \<Rightarrow> string \<Rightarrow> bool" where
  "DoesVendorMatch h aBlocklistVendor aAdapterVendor =
     (EqualsIgnoreCase h aBlocklistVendor aAdapterVendor \<or>
      EqualsIgnoreCase h aBlocklistVendor (DeviceVendor_All h))"

definition DoesDriverVendorMatch ::
  "('d, 'v) GfxDriverInfo_h \<Rightarrow> string \<Rightarrow> string \<Rightarrow> bool" where
  "DoesDriverVendorMatch h aBlocklistVendor aDriverVendor =
     (EqualsIgnoreCase h aBlocklistVendor aDriverVendor \<or>
      EqualsIgnoreCase h aBlocklistVendor (DriverVendor_All h))"

definition IsFeatureAllowlisted :: "nsIGfxInfo \<Rightarrow> int \<Rightarrow> bool" where
  "IsFeatureAllowlisted g aFeature = (aFeature = FEATURE_HW_DECODED_VIDEO_ZERO_COPY g)"

text \<open>The \<^verbatim>\<open>switch\<close> of \<^verbatim>\<open>OnlyAllowFeatureOnKnownConfig\<close>, its labels in source order.\<close>

definition OnlyAllowFeatureOnKnownConfig :: "build_config \<Rightarrow> nsIGfxInfo \<Rightarrow> int \<Rightarrow> bool" where
  "OnlyAllowFeatureOnKnownConfig b g aFeature =
     (if aFeature = FEATURE_GPU_PROCESS g then kIsAndroid b
      else if aFeature = FEATURE_DIRECT3D_11_ANGLE g \<or>
              aFeature = FEATURE_ALLOW_WEBGL_OUT_OF_PROCESS g \<or>
              aFeature = FEATURE_BACKDROP_FILTER g then False
      else True)"

text \<open>
  The \<^verbatim>\<open>switch\<close> on \<^verbatim>\<open>mComparisonOp\<close> in the rule scan: the value of \<^verbatim>\<open>match\<close>
  for the system driver version \<open>sys\<close>, the rule's \<^verbatim>\<open>mDriverVersion\<close> \<open>lo\<close> and
  \<^verbatim>\<open>mDriverVersionMax\<close> \<open>hi\<close>. The order of \<^typ>\<open>64 word\<close> is the unsigned one.
\<close>

fun driver_version_switch ::
  "VersionComparisonOp \<Rightarrow> 64 word \<Rightarrow> 64 word \<Rightarrow> 64 word \<Rightarrow> bool" where
  "driver_version_switch DRIVER_LESS_THAN sys lo hi = (sys < lo)"
| "driver_version_switch DRIVER_BUILD_ID_LESS_THAN sys lo hi = ((sys AND 0xFFFF) < lo)"
| "driver_version_switch DRIVER_LESS_THAN_OR_EQUAL sys lo hi = (sys \<le> lo)"
| "driver_version_switch DRIVER_BUILD_ID_LESS_THAN_OR_EQUAL sys lo hi = ((sys AND 0xFFFF) \<le> lo)"
| "driver_version_switch DRIVER_GREATER_THAN sys lo hi = (sys > lo)"
| "driver_version_switch DRIVER_GREATER_THAN_OR_EQUAL sys lo hi = (sys \<ge> lo)"
| "driver_version_switch DRIVER_EQUAL sys lo hi = (sys = lo)"
| "driver_version_switch DRIVER_NOT_EQUAL sys lo hi = (sys \<noteq> lo)"
| "driver_version_switch DRIVER_BETWEEN_EXCLUSIVE sys lo hi = (sys > lo \<and> sys < hi)"
| "driver_version_switch DRIVER_BETWEEN_INCLUSIVE sys lo hi = (sys \<ge> lo \<and> sys \<le> hi)"
| "driver_version_switch DRIVER_BETWEEN_INCLUSIVE_START sys lo hi = (sys \<ge> lo \<and> sys < hi)"
| "driver_version_switch DRIVER_COMPARISON_IGNORED sys lo hi = True"
| "driver_version_switch (DRIVER_OTHER n) sys lo hi = False"

text \<open>
  \<^verbatim>\<open>match\<close> after the conditional block: the \<^verbatim>\<open>switch\<close> on Windows, Android and
  GTK builds, \<^verbatim>\<open>true\<close> on every other build.
\<close>

definition driver_version_match ::
  "build_config \<Rightarrow> VersionComparisonOp \<Rightarrow> 64 word \<Rightarrow> 64 word \<Rightarrow> 64 word \<Rightarrow> bool" where
  "driver_version_match b op sys lo hi =
     (if XP_WIN b \<or> ANDROID b \<or> MOZ_WIDGET_GTK b then driver_version_switch op sys lo hi
      else True)"

subsection \<open>The rule scan\<close>

text \<open>The locals \<^verbatim>\<open>FindBlocklistedDeviceInList\<close> computes before its loop.\<close>

definition refreshRateStatus :: "GfxInfoBase_state \<Rightarrow> RefreshRateStatus" where
  "refreshRateStatus st =
     (if this_mScreenCount st \<le> 1 then RefreshRateStatus_Single
      else if this_mMinRefreshRate st = this_mMaxRefreshRate st then RefreshRateStatus_MultipleSame
      else RefreshRateStatus_Mixed)"

definition adapter_getters_failed :: "adapter_getters \<Rightarrow> bool" where
  "adapter_getters_failed a =
     (NS_FAILED (fst (GetAdapterVendorID a)) \<or>
      NS_FAILED (fst (GetAdapterDeviceID a)) \<or>
      NS_FAILED (fst (GetAdapterDriverVendor a)) \<or>
      NS_FAILED (fst (GetAdapterDriverVersion a)))"

text \<open>An array of two, indexed by \<^verbatim>\<open>infoIndex = mGpu2 ? 1 : 0\<close>.\<close>

definition at_infoIndex :: "bool \<Rightarrow> 'a \<times> 'a \<Rightarrow> 'a" where
  "at_infoIndex gpu2 arr = (if gpu2 then snd arr else fst arr)"

definition adapterInfoFailed :: "('d, 'v) machine \<Rightarrow> bool \<times> bool" where
  "adapterInfoFailed m =
     (adapter_getters_failed (adapter m), adapter_getters_failed (adapter2 m))"

definition adapterVendorID :: "('d, 'v) machine \<Rightarrow> string \<times> string" where
  "adapterVendorID m =
     (snd (GetAdapterVendorID (adapter m)), snd (GetAdapterVendorID (adapter2 m)))"

definition adapterDeviceID :: "('d, 'v) machine \<Rightarrow> string \<times> string" where
  "adapterDeviceID m =
     (snd (GetAdapterDeviceID (adapter m)), snd (GetAdapterDeviceID (adapter2 m)))"

definition adapterDriverVendor :: "('d, 'v) machine \<Rightarrow> string \<times> string" where
  "adapterDriverVendor m =
     (snd (GetAdapterDriverVendor (adapter m)), snd (GetAdapterDriverVendor (adapter2 m)))"

definition parsed_driverVersion ::
  "('d, 'v) GfxDriverInfo_h \<Rightarrow> adapter_getters \<Rightarrow> 64 word" where
  "parsed_driverVersion h a =
     (if \<not> adapter_getters_failed a
      then snd (ParseDriverVersion h (snd (GetAdapterDriverVersion a)))
      else 0)"

definition driverVersion ::
  "('d, 'v) GfxDriverInfo_h \<Rightarrow> ('d, 'v) machine \<Rightarrow> 64 word \<times> 64 word" where
  "driverVersion h m = (parsed_driverVersion h (adapter m), parsed_driverVersion h (adapter2 m))"

text \<open>How one iteration of the loop ends: \<^verbatim>\<open>continue\<close>, the \<^verbatim>\<open>break\<close> of the failed
  device lookup (nothing assigned), or the \<^verbatim>\<open>break\<close> after \<^verbatim>\<open>status\<close> and
  \<^verbatim>\<open>aFailureId\<close> were assigned from the rule.\<close>

datatype loop_step = Continue | Break_unassigned | Break_assigned

text \<open>The checks from the allow-status filter to the driver vendor.\<close>

definition rule_head_passes ::
  "build_config \<Rightarrow> ('d, 'v) GfxDriverInfo_h \<Rightarrow> ('d, 'v) machine \<Rightarrow> GfxInfoBase_state \<Rightarrow>
   OperatingSystem \<Rightarrow> bool \<Rightarrow> ('d, 'v) GfxDriverInfo \<Rightarrow> bool" where
  "rule_head_passes b h m st os aForAllowing r =
     (if MatchingAllowStatus (mFeatureStatus r) \<noteq> aForAllowing then False
      else if at_infoIndex (mGpu2 r) (adapterInfoFailed m) then False
      else if \<not> MatchingOperatingSystems b (mOperatingSystem r) os then False
      else if mOperatingSystemVersion r \<noteq> 0 \<and>
              mOperatingSystemVersion r \<noteq> OperatingSystemVersion m then False
      else if \<not> VersionEx_Compare h (OperatingSystemVersionEx m) (mOperatingSystemVersionEx r)
                  (mOperatingSystemVersionExMax r) (mOperatingSystemVersionExComparisonOp r)
        then False
      else if \<not> MatchingRefreshRateStatus (refreshRateStatus st) (mRefreshRateStatus r) then False
      else if this_mScreenCount st > 0 \<and>
              \<not> MatchingRefreshRates (this_mMinRefreshRate st) (mMinRefreshRate r)
                  (mMinRefreshRateMax r) (mMinRefreshRateComparisonOp r) then False
      else if this_mScreenCount st > 0 \<and>
              \<not> MatchingRefreshRates (this_mMaxRefreshRate st) (mMaxRefreshRate r)
                  (mMaxRefreshRateMax r) (mMaxRefreshRateComparisonOp r) then False
      else if \<not> MatchingBattery (mBattery r) (snd (GetHasBattery m)) then False
      else if \<not> MatchingScreenSize (mScreen r) (this_mScreenPixels st) then False
      else if \<not> DoesWindowProtocolMatch h (mWindowProtocol r) (snd (GetWindowProtocol m))
        then False
      else if \<not> DoesVendorMatch h (mAdapterVendor r)
                  (at_infoIndex (mGpu2 r) (adapterVendorID m)) then False
      else if \<not> DoesDriverVendorMatch h (mDriverVendor r)
                  (at_infoIndex (mGpu2 r) (adapterDriverVendor m)) then False
      else True)"

text \<open>
  The device-id block: \<open>Some\<close> of the way it leaves the iteration, \<open>None\<close> when
  control falls through to the checks after it.
\<close>

definition rule_devices ::
  "('d, 'v) GfxDriverInfo_h \<Rightarrow> ('d, 'v) machine \<Rightarrow> bool \<Rightarrow> ('d, 'v) GfxDriverInfo \<Rightarrow>
   loop_step option" where
  "rule_devices h m aForAllowing r =
     (case mDevices r of
        None \<Rightarrow> None
      | Some devs \<Rightarrow>
          if DeviceFamily_IsEmpty h devs then None
          else let rv = DeviceFamily_Contains h devs (at_infoIndex (mGpu2 r) (adapterDeviceID m))
               in if rv = NS_ERROR_NOT_AVAILABLE then Some Continue
                  else if rv \<noteq> NS_OK
                    then (if aForAllowing then Some Continue else Some Break_unassigned)
                  else None)"

text \<open>The driver-version condition of a rule, \<^verbatim>\<open>match || mDriverVersion ==
  allDriverVersions\<close>, for the system driver version \<open>sys\<close>.\<close>

definition driver_version_passes ::
  "build_config \<Rightarrow> ('d, 'v) GfxDriverInfo_h \<Rightarrow> ('d, 'v) GfxDriverInfo \<Rightarrow> 64 word \<Rightarrow> bool" where
  "driver_version_passes b h r sys =
     (driver_version_match b (mComparisonOp r) sys (mDriverVersion r) (mDriverVersionMax r) \<or>
      mDriverVersion r = allDriverVersions h)"

text \<open>The checks after the device-id block: the free-text filters, the driver version
  and the feature.\<close>

definition rule_tail ::
  "build_config \<Rightarrow> ('d, 'v) GfxDriverInfo_h \<Rightarrow> nsIGfxInfo \<Rightarrow> ('d, 'v) machine \<Rightarrow> int \<Rightarrow>
   ('d, 'v) GfxDriverInfo \<Rightarrow> loop_step" where
  "rule_tail b h g m aFeature r =
     (if mHardware r \<noteq> [] \<and> mHardware r \<noteq> Hardware m then Continue
      else if mModel r \<noteq> [] \<and> mModel r \<noteq> Model m then Continue
      else if mProduct r \<noteq> [] \<and> mProduct r \<noteq> Product m then Continue
      else if mManufacturer r \<noteq> [] \<and> mManufacturer r \<noteq> Manufacturer m then Continue
      else if driver_version_passes b h r (at_infoIndex (mGpu2 r) (driverVersion h m))
        then (if mFeature r = allFeatures h \<or> mFeature r = aFeature \<or>
                 (mFeature r = optionalFeatures h \<and> OnlyAllowFeatureOnKnownConfig b g aFeature)
              then Break_assigned
              else Continue)
      else Continue)"

text \<open>The body of the loop for the rule \<^verbatim>\<open>info[i]\<close>.\<close>

definition loop_body ::
  "build_config \<Rightarrow> ('d, 'v) GfxDriverInfo_h \<Rightarrow> nsIGfxInfo \<Rightarrow> ('d, 'v) machine \<Rightarrow>
   GfxInfoBase_state \<Rightarrow> int \<Rightarrow> OperatingSystem \<Rightarrow> bool \<Rightarrow> ('d, 'v) GfxDriverInfo \<Rightarrow>
   loop_step" where
  "loop_body b h g m st aFeature os aForAllowing r =
     (if \<not> rule_head_passes b h m st os aForAllowing r then Continue
      else case rule_devices h m aForAllowing r of
             Some step \<Rightarrow> step
           | None \<Rightarrow> rule_tail b h g m aFeature r)"

text \<open>
  The loop. Its result is where it stopped: \<open>Loop_end\<close> when \<^verbatim>\<open>i\<close> reached the
  length of the list, otherwise the rule \<^verbatim>\<open>info[i]\<close> at the \<^verbatim>\<open>break\<close> and whether
  \<^verbatim>\<open>status\<close> and \<^verbatim>\<open>aFailureId\<close> were assigned from it.
\<close>

datatype ('d, 'v) loop_exit = Loop_end | Loop_break "('d, 'v) GfxDriverInfo" bool

fun scan_loop ::
  "(('d, 'v) GfxDriverInfo \<Rightarrow> loop_step) \<Rightarrow> ('d, 'v) GfxDriverInfo list \<Rightarrow>
   ('d, 'v) loop_exit" where
  "scan_loop body [] = Loop_end"
| "scan_loop body (r # rs) =
     (case body r of
        Continue \<Rightarrow> scan_loop body rs
      | Break_unassigned \<Rightarrow> Loop_break r False
      | Break_assigned \<Rightarrow> Loop_break r True)"

text \<open>\<^verbatim>\<open>status\<close> and \<^verbatim>\<open>aFailureId\<close> after the loop.\<close>

definition status_after_loop ::
  "('d, 'v) loop_exit \<Rightarrow> string \<Rightarrow> FeatureStatus \<times> string" where
  "status_after_loop ex aFailureId =
     (case ex of
        Loop_break r True \<Rightarrow>
          (mFeatureStatus r,
           if mRuleId r \<noteq> [] then mRuleId r else ''FEATURE_FAILURE_DL_BLOCKLIST_NO_ID'')
      | _ \<Rightarrow> (FEATURE_STATUS_UNKNOWN, aFailureId))"

text \<open>The special case for the NVidia 310M as second adapter (Windows builds only).\<close>

definition nv310m_block ::
  "build_config \<Rightarrow> ('d, 'v) GfxDriverInfo_h \<Rightarrow> nsIGfxInfo \<Rightarrow> ('d, 'v) machine \<Rightarrow> int \<Rightarrow>
   FeatureStatus \<Rightarrow> bool" where
  "nv310m_block b h g m aFeature status =
     (XP_WIN b \<and> status = FEATURE_STATUS_UNKNOWN \<and> aFeature = FEATURE_DIRECT2D g \<and>
      \<not> snd (adapterInfoFailed m) \<and>
      EqualsIgnoreCase h (DeviceVendor_NVIDIA h) (snd (adapterVendorID m)) \<and>
      EqualsIgnoreCase h ''0x0A70'' (snd (adapterDeviceID m)))"

text \<open>\<^verbatim>\<open>printf\<close>'s decimal conversion of a non-negative number.\<close>

fun decimal :: "nat \<Rightarrow> string" where
  "decimal n =
     (if n < 10 then [char_of (48 + n)]
      else decimal (n div 10) @ [char_of (48 + n mod 10)])"

declare decimal.simps [simp del]

text \<open>The string \<^verbatim>\<open>"%lld.%lld.%lld.%lld"\<close> prints for the four 16-bit fields of a
  packed driver version.\<close>

definition format_driver_version :: "64 word \<Rightarrow> string" where
  "format_driver_version v =
     decimal (unat (drop_bit 48 (v AND 0xffff000000000000))) @ ''.'' @
     decimal (unat (drop_bit 32 (v AND 0x0000ffff00000000))) @ ''.'' @
     decimal (unat (drop_bit 16 (v AND 0x00000000ffff0000))) @ ''.'' @
     decimal (unat (v AND 0x000000000000ffff))"

text \<open>
  What the Windows-only block after the loop appends to \<^verbatim>\<open>aSuggestedVersion\<close> when
  \<^verbatim>\<open>status\<close> is \<^verbatim>\<open>FEATURE_BLOCKED_DRIVER_VERSION\<close>; \<open>r\<close> is \<^verbatim>\<open>info[i]\<close>.
\<close>

definition suggested_version_suffix ::
  "('d, 'v) GfxDriverInfo_h \<Rightarrow> ('d, 'v) GfxDriverInfo \<Rightarrow> string" where
  "suggested_version_suffix h r =
     (case mSuggestedVersion r of
        Some s \<Rightarrow> s
      | None \<Rightarrow>
          if mComparisonOp r = DRIVER_LESS_THAN \<and> mDriverVersion r \<noteq> allDriverVersions h
          then format_driver_version (mDriverVersion r)
          else [])"

text \<open>
  \<^verbatim>\<open>FindBlocklistedDeviceInList\<close>: the returned status, \<^verbatim>\<open>aSuggestedVersion\<close> and
  \<^verbatim>\<open>aFailureId\<close> after the call. \<^verbatim>\<open>status\<close> is \<^verbatim>\<open>FEATURE_BLOCKED_DRIVER_VERSION\<close>
  only after the assigning \<^verbatim>\<open>break\<close>, so \<^verbatim>\<open>info[i]\<close> is read in range; the branch for
  \<open>Loop_end\<close> there is never taken (lemma \<open>blocked_driver_version_in_range\<close>).
\<close>

definition FindBlocklistedDeviceInList ::
  "build_config \<Rightarrow> ('d, 'v) GfxDriverInfo_h \<Rightarrow> nsIGfxInfo \<Rightarrow> ('d, 'v) machine \<Rightarrow>
   GfxInfoBase_state \<Rightarrow> ('d, 'v) GfxDriverInfo list \<Rightarrow> string \<Rightarrow> int \<Rightarrow> string \<Rightarrow>
   OperatingSystem \<Rightarrow> bool \<Rightarrow> FeatureStatus \<times> string \<times> string" where
  "FindBlocklistedDeviceInList b h g m st info aSuggestedVersion aFeature aFailureId os
     aForAllowing =
     (if NS_FAILED (fst (GetWindowProtocol m)) \<and>
         fst (GetWindowProtocol m) \<noteq> NS_ERROR_NOT_IMPLEMENTED
        then (FEATURE_STATUS_LITERAL_0, aSuggestedVersion, aFailureId)
      else if NS_FAILED (fst (GetHasBattery m)) \<and>
              fst (GetHasBattery m) \<noteq> NS_ERROR_NOT_IMPLEMENTED
        then (FEATURE_STATUS_LITERAL_0, aSuggestedVersion, aFailureId)
      else if fst (adapterInfoFailed m) \<and> snd (adapterInfoFailed m)
        then (FEATURE_STATUS_LITERAL_0, aSuggestedVersion, aFailureId)
      else
        let ex = scan_loop (loop_body b h g m st aFeature os aForAllowing) info;
            (status, failureId) = status_after_loop ex aFailureId;
            (status, failureId) =
              (if nv310m_block b h g m aFeature status
               then (FEATURE_BLOCKED_DEVICE, ''FEATURE_FAILURE_D2D_NV310M_BLOCK'')
               else (status, failureId));
            suggestedVersion =
              (if XP_WIN b \<and> status = FEATURE_BLOCKED_DRIVER_VERSION
               then (case ex of
                       Loop_break r assigned \<Rightarrow>
                         aSuggestedVersion @ suggested_version_suffix h r
                     | Loop_end \<Rightarrow> aSuggestedVersion)
               else aSuggestedVersion)
        in (status, suggestedVersion, failureId))"

subsection \<open>The preference store\<close>

text \<open>
  Modelled from the spec: the preference service (\<^verbatim>\<open>Preferences::GetInt\<close>,
  \<^verbatim>\<open>GetCString\<close>, \<^verbatim>\<open>SetInt\<close>, \<^verbatim>\<open>SetCString\<close>, \<^verbatim>\<open>SetString\<close>, \<^verbatim>\<open>ClearUser\<close>)
  is not part of the sources. Following the spec's override store, an entry is absent
  until first written, a read of an absent entry (or of one of the other kind) fails,
  a write replaces the entry and a clear removes it.
\<close>

definition Preferences_GetInt :: "GfxInfoBase_state \<Rightarrow> string \<Rightarrow> FeatureStatus option" where
  "Preferences_GetInt st name =
     (case prefs st name of Some (PrefInt v) \<Rightarrow> Some v | _ \<Rightarrow> None)"

definition Preferences_GetCString :: "GfxInfoBase_state \<Rightarrow> string \<Rightarrow> string option" where
  "Preferences_GetCString st name =
     (case prefs st name of Some (PrefString v) \<Rightarrow> Some v | _ \<Rightarrow> None)"

definition Preferences_SetInt ::
  "string \<Rightarrow> FeatureStatus \<Rightarrow> GfxInfoBase_state \<Rightarrow> GfxInfoBase_state" where
  "Preferences_SetInt name v st = st\<lparr>prefs := (prefs st)(name \<mapsto> PrefInt v)\<rparr>"

definition Preferences_SetCString ::
  "string \<Rightarrow> string \<Rightarrow> GfxInfoBase_state \<Rightarrow> GfxInfoBase_state" where
  "Preferences_SetCString name v st = st\<lparr>prefs := (prefs st)(name \<mapsto> PrefString v)\<rparr>"

definition Preferences_ClearUser :: "string \<Rightarrow> GfxInfoBase_state \<Rightarrow> GfxInfoBase_state" where
  "Preferences_ClearUser name st = st\<lparr>prefs := (prefs st)(name := None)\<rparr>"

text \<open>
  The definition headers the file includes are not part of the sources; their entries
  are parameters. \<^verbatim>\<open>GFXINFO_FEATURE(id, name, pref)\<close> is the triple of the number
  \<^verbatim>\<open>nsIGfxInfo::FEATURE_id\<close>, the name and the preference suffix;
  \<^verbatim>\<open>GFXINFO_FEATURE_STATUS(id)\<close> and \<^verbatim>\<open>GFXINFO_DRIVER_VERSION_CMP(id)\<close> are the
  pair of the stringified \<^verbatim>\<open>id\<close> and the enumerator it names; \<^verbatim>\<open>GFXINFO_OS(id, name)\<close>
  and \<^verbatim>\<open>GFXINFO_REFRESH_RATE_STATUS(id, name)\<close> are pairs of enumerator and name.
\<close>

record GfxInfoDefs =
  GfxInfoFeatureDefs :: "(int \<times> string \<times> string) list"
  GfxInfoFeatureStatusDefs :: "(string \<times> FeatureStatus) list"
  GfxInfoDriverVersionCmpDefs :: "(string \<times> VersionComparisonOp) list"
  GfxInfoOperatingSystemDefs :: "(OperatingSystem \<times> string) list"
  GfxInfoRefreshRateStatusDefs :: "(RefreshRateStatus \<times> string) list"

definition BLOCKLIST_PREF_BRANCH :: string where
  "BLOCKLIST_PREF_BRANCH = ''gfx.blacklist.''"

definition SUGGESTED_VERSION_PREF :: string where
  "SUGGESTED_VERSION_PREF = BLOCKLIST_PREF_BRANCH @ ''suggested-driver-version''"

text \<open>\<open>None\<close> is the null pointer of the \<^verbatim>\<open>default\<close> label.\<close>

definition GetPrefNameForFeature :: "GfxInfoDefs \<Rightarrow> int \<Rightarrow> string option" where
  "GetPrefNameForFeature d aFeature =
     (case find (\<lambda>(feature, name, pref). feature = aFeature) (GfxInfoFeatureDefs d) of
        Some (feature, name, pref) \<Rightarrow> Some (BLOCKLIST_PREF_BRANCH @ pref)
      | None \<Rightarrow> None)"

text \<open>\<^verbatim>\<open>GetPrefValueForFeature\<close>: the returned flag, \<^verbatim>\<open>aValue\<close> and \<^verbatim>\<open>aFailureId\<close>
  after the call.\<close>

definition GetPrefValueForFeature ::
  "GfxInfoDefs \<Rightarrow> GfxInfoBase_state \<Rightarrow> int \<Rightarrow> FeatureStatus \<Rightarrow> string \<Rightarrow>
   bool \<times> FeatureStatus \<times> string" where
  "GetPrefValueForFeature d st aFeature aValue aFailureId =
     (case GetPrefNameForFeature d aFeature of
        None \<Rightarrow> (False, aValue, aFailureId)
      | Some prefname \<Rightarrow>
          (case Preferences_GetInt st prefname of
             None \<Rightarrow> (False, FEATURE_STATUS_UNKNOWN, aFailureId)
           | Some v \<Rightarrow>
               if v = FEATURE_DENIED then (False, v, aFailureId)
               else (case Preferences_GetCString st (prefname @ ''.failureid'') of
                       Some failureValue \<Rightarrow> (True, v, failureValue)
                     | None \<Rightarrow> (True, v, ''FEATURE_FAILURE_BLOCKLIST_PREF''))))"

definition XRE_IsParentProcess :: "('d, 'v) machine \<Rightarrow> bool" where
  "XRE_IsParentProcess m = (XRE_process m = ParentProcess)"

definition XRE_IsContentProcess :: "('d, 'v) machine \<Rightarrow> bool" where
  "XRE_IsContentProcess m = (XRE_process m = ContentProcess)"

definition XRE_IsGPUProcess :: "('d, 'v) machine \<Rightarrow> bool" where
  "XRE_IsGPUProcess m = (XRE_process m = GPUProcess)"

definition clear_sFeatureStatus ::
  "('d, 'v) machine \<Rightarrow> GfxInfoBase_state \<Rightarrow> GfxInfoBase_state" where
  "clear_sFeatureStatus m st =
     (if XRE_IsParentProcess m then st\<lparr>sFeatureStatus := None\<rparr> else st)"

definition SetPrefValueForFeature ::
  "GfxInfoDefs \<Rightarrow> ('d, 'v) machine \<Rightarrow> int \<Rightarrow> FeatureStatus \<Rightarrow> string \<Rightarrow>
   GfxInfoBase_state \<Rightarrow> GfxInfoBase_state" where
  "SetPrefValueForFeature d m aFeature aValue aFailureId st =
     (case GetPrefNameForFeature d aFeature of
        None \<Rightarrow> st
      | Some prefname \<Rightarrow>
          let st1 = clear_sFeatureStatus m st;
              st2 = Preferences_SetInt prefname aValue st1
          in if aFailureId \<noteq> []
             then Preferences_SetCString (prefname @ ''.failureid'') aFailureId st2
             else st2)"

definition RemovePrefForFeature ::
  "GfxInfoDefs \<Rightarrow> ('d, 'v) machine \<Rightarrow> int \<Rightarrow> GfxInfoBase_state \<Rightarrow> GfxInfoBase_state" where
  "RemovePrefForFeature d m aFeature st =
     (case GetPrefNameForFeature d aFeature of
        None \<Rightarrow> st
      | Some prefname \<Rightarrow> Preferences_ClearUser prefname (clear_sFeatureStatus m st))"

definition GetPrefValueForDriverVersion :: "GfxInfoBase_state \<Rightarrow> string option" where
  "GetPrefValueForDriverVersion st = Preferences_GetCString st SUGGESTED_VERSION_PREF"

definition SetPrefValueForDriverVersion ::
  "string \<Rightarrow> GfxInfoBase_state \<Rightarrow> GfxInfoBase_state" where
  "SetPrefValueForDriverVersion aVersion st =
     Preferences_SetCString SUGGESTED_VERSION_PREF aVersion st"

definition RemovePrefForDriverVersion :: "GfxInfoBase_state \<Rightarrow> GfxInfoBase_state" where
  "RemovePrefForDriverVersion st = Preferences_ClearUser SUGGESTED_VERSION_PREF st"

subsection \<open>Feature resolution\<close>

definition INT64_MAX :: int where
  "INT64_MAX = 2 ^ 63 - 1"

definition INT32_MAX :: int where
  "INT32_MAX = 2 ^ 31 - 1"

definition INT32_MIN :: int where
  "INT32_MIN = - (2 ^ 31)"

definition GetData :: "('d, 'v) machine \<Rightarrow> GfxInfoBase_state \<Rightarrow> GfxInfoBase_state" where
  "GetData m st =
     (if this_mScreenPixels st \<noteq> INT64_MAX then st
      else let st1 = st\<lparr>this_mScreenPixels := GetTotalScreenPixels m\<rparr>
           in if this_mScreenCount st1 = 0
              then st1\<lparr>this_mScreenCount := length (CurrentScreenList m),
                       this_mMinRefreshRate := fold min (CurrentScreenList m) INT32_MAX,
                       this_mMaxRefreshRate := fold max (CurrentScreenList m) INT32_MIN\<rparr>
              else st1)"

text \<open>
  \<^verbatim>\<open>GfxInfoBase::GetFeatureStatusImpl\<close>, the base-class method: the returned
  \<^verbatim>\<open>nsresult\<close>, then \<^verbatim>\<open>*aStatus\<close>, \<^verbatim>\<open>aSuggestedVersion\<close> and \<^verbatim>\<open>aFailureId\<close> after
  the call, and the state. \<open>aOS\<close> is \<open>None\<close> for the null default argument. The
  allocation of the empty \<^verbatim>\<open>sDriverInfo\<close> array has no effect on any result and is
  left out.
\<close>

definition GetFeatureStatusImpl ::
  "build_config \<Rightarrow> ('d, 'v) GfxDriverInfo_h \<Rightarrow> nsIGfxInfo \<Rightarrow> ('d, 'v) machine \<Rightarrow>
   GfxInfoBase_state \<Rightarrow> int \<Rightarrow> FeatureStatus \<Rightarrow> string \<Rightarrow> ('d, 'v) GfxDriverInfo list \<Rightarrow>
   string \<Rightarrow> OperatingSystem option \<Rightarrow>
   nsresult \<times> FeatureStatus \<times> string \<times> string \<times> GfxInfoBase_state" where
  "GetFeatureStatusImpl b h g m st aFeature aStatus aSuggestedVersion aDriverInfo aFailureId aOS =
     (if aFeature \<le> 0 then (NS_OK, aStatus, aSuggestedVersion, aFailureId, st)
      else if aStatus \<noteq> FEATURE_STATUS_UNKNOWN
        then (NS_OK, aStatus, aSuggestedVersion, aFailureId, st)
      else if sShutdownOccurred st then (NS_OK, aStatus, aSuggestedVersion, aFailureId, st)
      else
        let st1 = GetData m st;
            os = (case aOS of Some os' \<Rightarrow> os' | None \<Rightarrow> OperatingSystem_Unknown)
        in if NS_FAILED (fst (GetAdapterVendorID (adapter m))) \<or>
              NS_FAILED (fst (GetAdapterDeviceID (adapter m))) \<or>
              NS_FAILED (fst (GetAdapterDriverVersion (adapter m)))
           then (if OnlyAllowFeatureOnKnownConfig b g aFeature
                 then (NS_OK, FEATURE_BLOCKED_DEVICE, aSuggestedVersion,
                       ''FEATURE_FAILURE_CANT_RESOLVE_ADAPTER'', st1)
                 else (NS_OK, FEATURE_STATUS_OK, aSuggestedVersion, aFailureId, st1))
           else
             let info = (if aDriverInfo \<noteq> [] then aDriverInfo else GetGfxDriverInfo m);
                 (status, suggestedVersion1, failureId1) =
                    FindBlocklistedDeviceInList b h g m st1 info aSuggestedVersion aFeature
                      aFailureId os False
             in if status = FEATURE_STATUS_UNKNOWN
                then (if IsFeatureAllowlisted g aFeature
                      then let (status2, suggestedVersion2, failureId2) =
                                 FindBlocklistedDeviceInList b h g m st1 info suggestedVersion1
                                   aFeature failureId1 os True
                           in (NS_OK,
                               if status2 = FEATURE_STATUS_UNKNOWN then FEATURE_DENIED
                               else status2,
                               suggestedVersion2, failureId2, st1)
                      else (NS_OK, FEATURE_STATUS_OK, suggestedVersion1, failureId1, st1))
                else (NS_OK, status, suggestedVersion1, failureId1, st1))"

text \<open>
  \<^verbatim>\<open>GfxInfoBase::GetFeatureStatus\<close>: the \<^verbatim>\<open>nsresult\<close>, \<^verbatim>\<open>*aStatus\<close> and
  \<^verbatim>\<open>aFailureId\<close> after the call, and the state. In a content or GPU process with no
  \<^verbatim>\<open>sFeatureStatus\<close> the release build dereferences the null pointer:
  \<open>Inl Null_sFeatureStatus\<close>. The call of the virtual \<^verbatim>\<open>GetFeatureStatusImpl\<close> is
  the call of the base-class method above.
\<close>

datatype fatal = Null_sFeatureStatus

definition GetFeatureStatus ::
  "build_config \<Rightarrow> ('d, 'v) GfxDriverInfo_h \<Rightarrow> nsIGfxInfo \<Rightarrow> GfxInfoDefs \<Rightarrow> ('d, 'v) machine \<Rightarrow>
   GfxInfoBase_state \<Rightarrow> int \<Rightarrow> string \<Rightarrow> FeatureStatus \<Rightarrow>
   fatal + nsresult \<times> FeatureStatus \<times> string \<times> GfxInfoBase_state" where
  "GetFeatureStatus b h g d m st aFeature aFailureId aStatus =
     (let blocklistAll = (if RELEASE_OR_BETA b then 0 else gfx_blocklist_all_AtStartup m)
      in if blocklistAll > 0
           then Inr (NS_OK, FEATURE_BLOCKED_DEVICE, ''FEATURE_FAILURE_BLOCK_ALL'', st)
         else if blocklistAll < 0 then Inr (NS_OK, FEATURE_STATUS_OK, aFailureId, st)
         else
           let (found, status1, failureId1) =
                 GetPrefValueForFeature d st aFeature aStatus aFailureId
           in if found then Inr (NS_OK, status1, failureId1, st)
              else if XRE_IsContentProcess m \<or> XRE_IsGPUProcess m
                then (case sFeatureStatus st of
                        None \<Rightarrow> Inl Null_sFeatureStatus
                      | Some fss \<Rightarrow>
                          (case find (\<lambda>fs. fs_feature fs = aFeature) fss of
                             Some fs \<Rightarrow> Inr (NS_OK, fs_status fs, fs_failureId fs, st)
                           | None \<Rightarrow> Inr (NS_ERROR_FAILURE, status1, failureId1, st)))
              else
                let (rv, status2, version, failureId2, st2) =
                      GetFeatureStatusImpl b h g m st aFeature status1 [] [] failureId1 None
                in Inr (rv, status2, failureId2, st2))"

subsection \<open>Replaying a downloaded batch\<close>

text \<open>One iteration of the loop over the features in
  \<^verbatim>\<open>EvaluateDownloadedBlocklist\<close>.\<close>

definition evaluate_feature ::
  "build_config \<Rightarrow> ('d, 'v) GfxDriverInfo_h \<Rightarrow> nsIGfxInfo \<Rightarrow> GfxInfoDefs \<Rightarrow> ('d, 'v) machine \<Rightarrow>
   ('d, 'v) GfxDriverInfo list \<Rightarrow> OperatingSystem \<Rightarrow> int \<Rightarrow> GfxInfoBase_state \<Rightarrow>
   GfxInfoBase_state" where
  "evaluate_feature b h g d m aDriverInfo os feature st =
     (let (rv, status, suggestedVersion, failureId, st1) =
            GetFeatureStatusImpl b h g m st feature FEATURE_STATUS_UNKNOWN [] aDriverInfo []
              (Some os)
      in case status of
           FEATURE_BLOCKED_DRIVER_VERSION \<Rightarrow>
             SetPrefValueForFeature d m feature status failureId
               (if suggestedVersion \<noteq> [] then SetPrefValueForDriverVersion suggestedVersion st1
                else RemovePrefForDriverVersion st1)
         | FEATURE_BLOCKED_MISMATCHED_VERSION \<Rightarrow>
             SetPrefValueForFeature d m feature status failureId st1
         | FEATURE_BLOCKED_DEVICE \<Rightarrow> SetPrefValueForFeature d m feature status failureId st1
         | FEATURE_DISCOURAGED \<Rightarrow> SetPrefValueForFeature d m feature status failureId st1
         | FEATURE_BLOCKED_OS_VERSION \<Rightarrow> SetPrefValueForFeature d m feature status failureId st1
         | FEATURE_BLOCKED_PLATFORM_TEST \<Rightarrow>
             SetPrefValueForFeature d m feature status failureId st1
         | _ \<Rightarrow> RemovePrefForFeature d m feature st1)"

definition EvaluateDownloadedBlocklist ::
  "build_config \<Rightarrow> ('d, 'v) GfxDriverInfo_h \<Rightarrow> nsIGfxInfo \<Rightarrow> GfxInfoDefs \<Rightarrow> ('d, 'v) machine \<Rightarrow>
   ('d, 'v) GfxDriverInfo list \<Rightarrow> GfxInfoBase_state \<Rightarrow> GfxInfoBase_state" where
  "EvaluateDownloadedBlocklist b h g d m aDriverInfo st =
     (if aDriverInfo = [] then st
      else fold (evaluate_feature b h g d m aDriverInfo (GetOperatingSystem m))
             [FEATURE_START g .. FEATURE_COUNT g - 1] st)"

subsection \<open>Parsing a downloaded record\<close>

text \<open>
  The library functions the parser calls are not part of the sources and are
  parameters: \<^verbatim>\<open>Split\<close> and \<^verbatim>\<open>ParseString\<close>, which cut a string at a delimiter,
  \<^verbatim>\<open>strtoul\<close> in base 10, the three-way comparison behind the operators of
  \<^verbatim>\<open>mozilla::Version\<close>, and the application version.
\<close>

record xpcom =
  Split :: "string \<Rightarrow> char \<Rightarrow> string list"
  ParseString :: "string \<Rightarrow> char \<Rightarrow> string list"
  strtoul :: "string \<Rightarrow> nat"
  CompareVersions :: "string \<Rightarrow> string \<Rightarrow> int"
  GetApplicationVersion :: string

text \<open>The conversions of the \<^verbatim>\<open>unsigned long\<close> of \<^verbatim>\<open>strtoul\<close> on assignment to a
  \<^verbatim>\<open>uint32_t\<close> and to an \<^verbatim>\<open>int32_t\<close> field.\<close>

definition to_uint32 :: "nat \<Rightarrow> nat" where
  "to_uint32 n = n mod 2 ^ 32"

definition to_int32 :: "nat \<Rightarrow> int" where
  "to_int32 n = sint (word_of_nat n :: 32 word)"

definition BlocklistOSToOperatingSystem :: "GfxInfoDefs \<Rightarrow> string \<Rightarrow> OperatingSystem" where
  "BlocklistOSToOperatingSystem d os =
     (case find (\<lambda>(os_id, name). os = name) (GfxInfoOperatingSystemDefs d) of
        Some (os_id, name) \<Rightarrow> os_id
      | None \<Rightarrow> OperatingSystem_Unknown)"

definition BlocklistToRefreshRateStatus :: "GfxInfoDefs \<Rightarrow> string \<Rightarrow> RefreshRateStatus" where
  "BlocklistToRefreshRateStatus d refreshRateStatus' =
     (case find (\<lambda>(rr_id, name). refreshRateStatus' = name) (GfxInfoRefreshRateStatusDefs d) of
        Some (rr_id, name) \<Rightarrow> rr_id
      | None \<Rightarrow> RefreshRateStatus_Unknown)"

definition BlocklistDevicesToDeviceFamily ::
  "('d, 'v) GfxDriverInfo_h \<Rightarrow> string list \<Rightarrow> 'd option" where
  "BlocklistDevicesToDeviceFamily h devices =
     (if length devices = 0 then None
      else Some (fold (\<lambda>device deviceIds. DeviceFamily_Append h deviceIds device) devices
                   (DeviceFamily_new h)))"

definition BlocklistFeatureToGfxFeature :: "GfxInfoDefs \<Rightarrow> nsIGfxInfo \<Rightarrow> string \<Rightarrow> int" where
  "BlocklistFeatureToGfxFeature d g aFeature =
     (case find (\<lambda>(feature, name, pref). aFeature = name) (GfxInfoFeatureDefs d) of
        Some (feature, name, pref) \<Rightarrow> feature
      | None \<Rightarrow> FEATURE_INVALID g)"

definition BlocklistFeatureStatusToGfxFeatureStatus ::
  "GfxInfoDefs \<Rightarrow> string \<Rightarrow> FeatureStatus" where
  "BlocklistFeatureStatusToGfxFeatureStatus d aStatus =
     (case find (\<lambda>(name, status). aStatus = name) (GfxInfoFeatureStatusDefs d) of
        Some (name, status) \<Rightarrow> status
      | None \<Rightarrow> FEATURE_STATUS_OK)"

definition BlocklistComparatorToComparisonOp ::
  "GfxInfoDefs \<Rightarrow> string \<Rightarrow> VersionComparisonOp" where
  "BlocklistComparatorToComparisonOp d op =
     (case find (\<lambda>(name, cmp). op = name) (GfxInfoDriverVersionCmpDefs d) of
        Some (name, cmp) \<Rightarrow> cmp
      | None \<Rightarrow> DRIVER_COMPARISON_IGNORED)"

text \<open>
  The chain of \<^verbatim>\<open>else if\<close> on the key of one \<^verbatim>\<open>key:value\<close> pair: \<open>None\<close> where the
  parser returns \<^verbatim>\<open>false\<close>, otherwise the rule after the assignment.
\<close>

definition parse_key_value ::
  "xpcom \<Rightarrow> ('d, 'v) GfxDriverInfo_h \<Rightarrow> nsIGfxInfo \<Rightarrow> GfxInfoDefs \<Rightarrow> string \<Rightarrow> string \<Rightarrow>
   ('d, 'v) GfxDriverInfo \<Rightarrow> ('d, 'v) GfxDriverInfo option" where
  "parse_key_value x h g d key val di =
     (if key = ''blockID'' then Some (di\<lparr>mRuleId := ''FEATURE_FAILURE_DL_BLOCKLIST_'' @ val\<rparr>)
      else if key = ''os''
        then Some (di\<lparr>mOperatingSystem := BlocklistOSToOperatingSystem d val\<rparr>)
      else if key = ''osversion''
        then Some (di\<lparr>mOperatingSystemVersion := to_uint32 (strtoul x val)\<rparr>)
      else if key = ''osVersionEx''
        then Some (di\<lparr>mOperatingSystemVersionEx :=
                         VersionEx_Parse h (mOperatingSystemVersionEx di) val\<rparr>)
      else if key = ''osVersionExMax''
        then Some (di\<lparr>mOperatingSystemVersionExMax :=
                         VersionEx_Parse h (mOperatingSystemVersionExMax di) val\<rparr>)
      else if key = ''osVersionExComparator''
        then Some (di\<lparr>mOperatingSystemVersionExComparisonOp :=
                         BlocklistComparatorToComparisonOp d val\<rparr>)
      else if key = ''refreshRateStatus''
        then Some (di\<lparr>mRefreshRateStatus := BlocklistToRefreshRateStatus d val\<rparr>)
      else if key = ''minRefreshRate''
        then Some (di\<lparr>mMinRefreshRate := to_int32 (strtoul x val)\<rparr>)
      else if key = ''minRefreshRateMax''
        then Some (di\<lparr>mMinRefreshRateMax := to_int32 (strtoul x val)\<rparr>)
      else if key = ''minRefreshRateComparator''
        then Some (di\<lparr>mMinRefreshRateComparisonOp := BlocklistComparatorToComparisonOp d val\<rparr>)
      else if key = ''maxRefreshRate''
        then Some (di\<lparr>mMaxRefreshRate := to_int32 (strtoul x val)\<rparr>)
      else if key = ''maxRefreshRateMax''
        then Some (di\<lparr>mMaxRefreshRateMax := to_int32 (strtoul x val)\<rparr>)
      else if key = ''maxRefreshRateComparator''
        then Some (di\<lparr>mMaxRefreshRateComparisonOp := BlocklistComparatorToComparisonOp d val\<rparr>)
      else if key = ''windowProtocol'' then Some (di\<lparr>mWindowProtocol := val\<rparr>)
      else if key = ''vendor'' then Some (di\<lparr>mAdapterVendor := val\<rparr>)
      else if key = ''driverVendor'' then Some (di\<lparr>mDriverVendor := val\<rparr>)
      else if key = ''feature''
        then (let feature = BlocklistFeatureToGfxFeature d g val
              in if feature = FEATURE_INVALID g then None else Some (di\<lparr>mFeature := feature\<rparr>))
      else if key = ''featureStatus''
        then Some (di\<lparr>mFeatureStatus := BlocklistFeatureStatusToGfxFeatureStatus d val\<rparr>)
      else if key = ''driverVersion''
        then (let (ok, version) = ParseDriverVersion h val
              in Some (if ok then di\<lparr>mDriverVersion := version\<rparr> else di))
      else if key = ''driverVersionMax''
        then (let (ok, version) = ParseDriverVersion h val
              in Some (if ok then di\<lparr>mDriverVersionMax := version\<rparr> else di))
      else if key = ''driverVersionComparator''
        then Some (di\<lparr>mComparisonOp := BlocklistComparatorToComparisonOp d val\<rparr>)
      else if key = ''model'' then Some (di\<lparr>mModel := val\<rparr>)
      else if key = ''product'' then Some (di\<lparr>mProduct := val\<rparr>)
      else if key = ''manufacturer'' then Some (di\<lparr>mManufacturer := val\<rparr>)
      else if key = ''hardware'' then Some (di\<lparr>mHardware := val\<rparr>)
      else if key = ''versionRange''
        then (let versionRange = ParseString x val (CHR '','')
              in if length versionRange \<noteq> 2 then None
                 else let minValue = versionRange ! 0;
                          maxValue = versionRange ! 1;
                          appV = GetApplicationVersion x
                      in if CompareVersions x minValue ''0'' > 0 \<and>
                            \<not> CompareVersions x appV minValue \<ge> 0 then None
                         else if CompareVersions x maxValue ''0'' > 0 \<and>
                                 \<not> CompareVersions x appV maxValue \<le> 0 then None
                         else Some di)
      else if key = ''devices''
        then Some (di\<lparr>mDevices :=
                         BlocklistDevicesToDeviceFamily h (ParseString x val (CHR '',''))\<rparr>)
      else Some di)"

text \<open>The loop over the tab-separated pairs of a record.\<close>

fun parse_pairs ::
  "xpcom \<Rightarrow> ('d, 'v) GfxDriverInfo_h \<Rightarrow> nsIGfxInfo \<Rightarrow> GfxInfoDefs \<Rightarrow> string list \<Rightarrow>
   ('d, 'v) GfxDriverInfo \<Rightarrow> ('d, 'v) GfxDriverInfo option" where
  "parse_pairs x h g d [] di = Some di"
| "parse_pairs x h g d (keyValue # rest) di =
     (let splitted = ParseString x keyValue (CHR '':'')
      in if length splitted \<noteq> 2 then None
         else let key = splitted ! 0; val = splitted ! 1
              in if length val = 0 then None
                 else case parse_key_value x h g d key val di of
                        None \<Rightarrow> None
                      | Some di' \<Rightarrow> parse_pairs x h g d rest di')"

text \<open>\<^verbatim>\<open>BlocklistEntryToDriverInfo\<close>: \<open>None\<close> when it returns \<^verbatim>\<open>false\<close> (the caller
  then drops the rule), otherwise the rule it filled in.\<close>

definition BlocklistEntryToDriverInfo ::
  "xpcom \<Rightarrow> ('d, 'v) GfxDriverInfo_h \<Rightarrow> nsIGfxInfo \<Rightarrow> GfxInfoDefs \<Rightarrow> string \<Rightarrow>
   ('d, 'v) GfxDriverInfo \<Rightarrow> ('d, 'v) GfxDriverInfo option" where
  "BlocklistEntryToDriverInfo x h g d aBlocklistEntry aDriverInfo =
     parse_pairs x h g d (Split x aBlocklistEntry (CHR 0x09))
       (aDriverInfo\<lparr>mRuleId := ''FEATURE_FAILURE_DL_BLOCKLIST_NO_ID''\<rparr>)"

text \<open>\<^verbatim>\<open>GfxInfoBase::Observe\<close>; \<open>new_di\<close> is the default-constructed rule.\<close>

definition Observe ::
  "build_config \<Rightarrow> xpcom \<Rightarrow> ('d, 'v) GfxDriverInfo_h \<Rightarrow> nsIGfxInfo \<Rightarrow> GfxInfoDefs \<Rightarrow>
   ('d, 'v) machine \<Rightarrow> ('d, 'v) GfxDriverInfo \<Rightarrow> string \<Rightarrow> string \<Rightarrow> GfxInfoBase_state \<Rightarrow>
   GfxInfoBase_state" where
  "Observe b x h g d m new_di aTopic aData st =
     (if aTopic = ''blocklist-data-gfxItems''
      then EvaluateDownloadedBlocklist b h g d m
             (List.map_filter (\<lambda>blocklistEntry.
                  BlocklistEntryToDriverInfo x h g d blocklistEntry new_di)
                (Split x aData (CHR 0x0A)))
             st
      else st)"

subsection \<open>Concrete parameters\<close>

text \<open>
  Instances of the parameters, on which the theorems below are evaluated: two build
  configurations, a device family that is a list of ids, an extended version that is
  a number, ASCII case folding, and short definition tables. The tables hold the
  identifiers the file names; the numbers of the features are arbitrary.
\<close>

definition windows_build :: build_config where
  "windows_build =
     \<lparr>XP_WIN = True, XP_MACOSX = False, ANDROID = False, MOZ_WIDGET_GTK = False,
      kIsAndroid = False, RELEASE_OR_BETA = True\<rparr>"

definition gtk_build :: build_config where
  "gtk_build =
     \<lparr>XP_WIN = False, XP_MACOSX = False, ANDROID = False, MOZ_WIDGET_GTK = True,
      kIsAndroid = False, RELEASE_OR_BETA = True\<rparr>"

definition ascii_lower :: "char \<Rightarrow> char" where
  "ascii_lower c =
     (let n = (of_char c :: nat) in if 65 \<le> n \<and> n \<le> 90 then char_of (n + 32) else c)"

text \<open>The packed driver version \<^verbatim>\<open>a.b.c.d\<close>.\<close>

definition V :: "64 word \<Rightarrow> 64 word \<Rightarrow> 64 word \<Rightarrow> 64 word \<Rightarrow> 64 word" where
  "V a b c d = push_bit 48 a OR push_bit 32 b OR push_bit 16 c OR d"

text \<open>
  In \<open>example_h\<close> the lookup in a device family succeeds for a listed id, fails with
  \<^verbatim>\<open>NS_ERROR_INVALID_ARG\<close> for an empty device id and reports
  \<^verbatim>\<open>NS_ERROR_NOT_AVAILABLE\<close> otherwise; the driver-version parser knows two
  version strings.
\<close>

definition example_h :: "(string list, nat) GfxDriverInfo_h" where
  "example_h =
     \<lparr>allDriverVersions = - 1,
      allFeatures = - 1,
      optionalFeatures = - 2,
      WindowProtocol_All = [],
      DeviceVendor_All = [],
      DeviceVendor_NVIDIA = ''0x10de'',
      DriverVendor_All = [],
      ParseDriverVersion =
        (\<lambda>s. if s = ''8.52.322.2200'' then (True, V 8 52 322 2200)
             else if s = ''8.52.322.2202'' then (True, V 8 52 322 2202)
             else (False, 0)),
      DeviceFamily_new = [],
      DeviceFamily_Append = (\<lambda>deviceIds device. deviceIds @ [device]),
      DeviceFamily_IsEmpty = (\<lambda>deviceIds. deviceIds = []),
      DeviceFamily_Contains =
        (\<lambda>deviceIds device.
           if device \<in> set deviceIds then NS_OK
           else if device = [] then NS_ERROR_INVALID_ARG
           else NS_ERROR_NOT_AVAILABLE),
      VersionEx_Parse = (\<lambda>v s. v),
      VersionEx_Compare =
        (\<lambda>sys lo hi cmp. MatchingRefreshRates (int sys) (int lo) (int hi) cmp),
      EqualsIgnoreCase = (\<lambda>s t. map ascii_lower s = map ascii_lower t)\<rparr>"

definition example_g :: nsIGfxInfo where
  "example_g =
     \<lparr>FEATURE_INVALID = 0,
      FEATURE_START = 1,
      FEATURE_COUNT = 7,
      FEATURE_DIRECT2D = 1,
      FEATURE_GPU_PROCESS = 2,
      FEATURE_DIRECT3D_11_ANGLE = 3,
      FEATURE_ALLOW_WEBGL_OUT_OF_PROCESS = 4,
      FEATURE_BACKDROP_FILTER = 5,
      FEATURE_HW_DECODED_VIDEO_ZERO_COPY = 6\<rparr>"

definition example_defs :: GfxInfoDefs where
  "example_defs =
     \<lparr>GfxInfoFeatureDefs =
        [(1, ''DIRECT2D'', ''direct2d''),
         (2, ''GPU_PROCESS'', ''gpu.process''),
         (3, ''DIRECT3D_11_ANGLE'', ''direct3d11angle''),
         (4, ''ALLOW_WEBGL_OUT_OF_PROCESS'', ''webgl.allow-oop''),
         (5, ''BACKDROP_FILTER'', ''backdrop.filter''),
         (6, ''HW_DECODED_VIDEO_ZERO_COPY'', ''video.hw-decoded.zero-copy'')],
      GfxInfoFeatureStatusDefs =
        [(''STATUS_OK'', FEATURE_STATUS_OK),
         (''BLOCKED_DRIVER_VERSION'', FEATURE_BLOCKED_DRIVER_VERSION),
         (''BLOCKED_DEVICE'', FEATURE_BLOCKED_DEVICE),
         (''DISCOURAGED'', FEATURE_DISCOURAGED),
         (''BLOCKED_OS_VERSION'', FEATURE_BLOCKED_OS_VERSION),
         (''STATUS_UNKNOWN'', FEATURE_STATUS_UNKNOWN),
         (''BLOCKED_MISMATCHED_VERSION'', FEATURE_BLOCKED_MISMATCHED_VERSION),
         (''DENIED'', FEATURE_DENIED),
         (''ALLOW_ALWAYS'', FEATURE_ALLOW_ALWAYS),
         (''ALLOW_QUALIFIED'', FEATURE_ALLOW_QUALIFIED),
         (''BLOCKED_PLATFORM_TEST'', FEATURE_BLOCKED_PLATFORM_TEST)],
      GfxInfoDriverVersionCmpDefs =
        [(''LESS_THAN'', DRIVER_LESS_THAN),
         (''BUILD_ID_LESS_THAN'', DRIVER_BUILD_ID_LESS_THAN),
         (''LESS_THAN_OR_EQUAL'', DRIVER_LESS_THAN_OR_EQUAL),
         (''BUILD_ID_LESS_THAN_OR_EQUAL'', DRIVER_BUILD_ID_LESS_THAN_OR_EQUAL),
         (''GREATER_THAN'', DRIVER_GREATER_THAN),
         (''GREATER_THAN_OR_EQUAL'', DRIVER_GREATER_THAN_OR_EQUAL),
         (''EQUAL'', DRIVER_EQUAL),
         (''NOT_EQUAL'', DRIVER_NOT_EQUAL),
         (''BETWEEN_EXCLUSIVE'', DRIVER_BETWEEN_EXCLUSIVE),
         (''BETWEEN_INCLUSIVE'', DRIVER_BETWEEN_INCLUSIVE),
         (''BETWEEN_INCLUSIVE_START'', DRIVER_BETWEEN_INCLUSIVE_START),
         (''COMPARISON_IGNORED'', DRIVER_COMPARISON_IGNORED)],
      GfxInfoOperatingSystemDefs =
        [(OperatingSystem_Windows, ''WINNT''),
         (OperatingSystem_Windows10, ''WINNT 10.0''),
         (OperatingSystem_Other 0, ''Linux'')],
      GfxInfoRefreshRateStatusDefs =
        [(RefreshRateStatus_Any, ''Any''),
         (RefreshRateStatus_AnySame, ''AnySame'')]\<rparr>"

text \<open>A machine with one readable adapter, an Intel device with driver 8.52.322.2200,
  and the state of a fresh object.\<close>

definition intel_adapter :: adapter_getters where
  "intel_adapter =
     \<lparr>GetAdapterVendorID = (NS_OK, ''0x8086''),
      GetAdapterDeviceID = (NS_OK, ''0x2582''),
      GetAdapterDriverVendor = (NS_OK, []),
      GetAdapterDriverVersion = (NS_OK, ''8.52.322.2200'')\<rparr>"

definition no_adapter :: adapter_getters where
  "no_adapter =
     \<lparr>GetAdapterVendorID = (NS_ERROR_FAILURE, []),
      GetAdapterDeviceID = (NS_ERROR_FAILURE, []),
      GetAdapterDriverVendor = (NS_ERROR_FAILURE, []),
      GetAdapterDriverVersion = (NS_ERROR_FAILURE, [])\<rparr>"

definition example_machine :: "(string list, nat) machine" where
  "example_machine =
     \<lparr>adapter = intel_adapter,
      adapter2 = no_adapter,
      GetWindowProtocol = (NS_ERROR_NOT_IMPLEMENTED, []),
      GetHasBattery = (NS_OK, False),
      OperatingSystemVersion = 0,
      OperatingSystemVersionEx = 0,
      GetOperatingSystem = OperatingSystem_Windows10,
      Hardware = [],
      Model = [],
      Product = [],
      Manufacturer = [],
      GetGfxDriverInfo = [],
      GetTotalScreenPixels = 2073600,
      CurrentScreenList = [60],
      XRE_process = ParentProcess,
      gfx_blocklist_all_AtStartup = 0\<rparr>"

definition example_state :: GfxInfoBase_state where
  "example_state =
     \<lparr>this_mScreenPixels = INT64_MAX,
      this_mScreenCount = 0,
      this_mMinRefreshRate = 0,
      this_mMaxRefreshRate = 0,
      sFeatureStatus = None,
      sShutdownOccurred = False,
      prefs = Map.empty\<rparr>"

text \<open>A rule for Windows 10 that constrains nothing else and blocks every feature.\<close>

definition example_rule :: "(string list, nat) GfxDriverInfo" where
  "example_rule =
     \<lparr>mOperatingSystem = OperatingSystem_Windows10,
      mOperatingSystemVersion = 0,
      mOperatingSystemVersionEx = 0,
      mOperatingSystemVersionExMax = 0,
      mOperatingSystemVersionExComparisonOp = DRIVER_COMPARISON_IGNORED,
      mRefreshRateStatus = RefreshRateStatus_Any,
      mMinRefreshRate = 0,
      mMinRefreshRateMax = 0,
      mMinRefreshRateComparisonOp = DRIVER_COMPARISON_IGNORED,
      mMaxRefreshRate = 0,
      mMaxRefreshRateMax = 0,
      mMaxRefreshRateComparisonOp = DRIVER_COMPARISON_IGNORED,
      mBattery = BatteryStatus_All,
      mScreen = ScreenSizeStatus_All,
      mWindowProtocol = [],
      mAdapterVendor = [],
      mDriverVendor = [],
      mDevices = None,
      mFeature = - 1,
      mFeatureStatus = FEATURE_BLOCKED_DEVICE,
      mComparisonOp = DRIVER_COMPARISON_IGNORED,
      mDriverVersion = 0,
      mDriverVersionMax = 0,
      mSuggestedVersion = None,
      mModel = [],
      mHardware = [],
      mProduct = [],
      mManufacturer = [],
      mGpu2 = False,
      mRuleId = ''FEATURE_FAILURE_EXAMPLE''\<rparr>"

text \<open>Library functions for \<open>xpcom\<close>: cutting at a delimiter, keeping empty pieces
  (\<^verbatim>\<open>Split\<close>) or dropping them (\<^verbatim>\<open>ParseString\<close>); \<^verbatim>\<open>strtoul\<close> in base 10 for
  a 64-bit \<^verbatim>\<open>unsigned long\<close> (leading white space, an optional sign, the digits up to
  the first other character, \<^verbatim>\<open>ULONG_MAX\<close> on overflow, a negated value reduced
  modulo \<open>2 ^ 64\<close>); and versions ordered by their leading number.\<close>

fun split_at_delim :: "char \<Rightarrow> string \<Rightarrow> string list" where
  "split_at_delim c [] = [[]]"
| "split_at_delim c (a # s) =
     (if a = c then [] # split_at_delim c s
      else case split_at_delim c s of
             [] \<Rightarrow> [[a]]
           | w # ws \<Rightarrow> (a # w) # ws)"

definition is_digit :: "char \<Rightarrow> bool" where
  "is_digit c = (48 \<le> (of_char c :: nat) \<and> (of_char c :: nat) \<le> 57)"

definition is_space :: "char \<Rightarrow> bool" where
  "is_space c = ((of_char c :: nat) = 32 \<or> (9 \<le> (of_char c :: nat) \<and> (of_char c :: nat) \<le> 13))"

definition digits_value :: "string \<Rightarrow> nat" where
  "digits_value s = fold (\<lambda>ch n. 10 * n + (of_char ch - 48)) s 0"

definition ULONG_MAX :: nat where
  "ULONG_MAX = 2 ^ 64 - 1"

definition strtoul_base10 :: "string \<Rightarrow> nat" where
  "strtoul_base10 s =
     (let s1 = dropWhile is_space s;
          negative = (take 1 s1 = ''-'');
          s2 = (if take 1 s1 = ''-'' \<or> take 1 s1 = ''+'' then drop 1 s1 else s1);
          n = digits_value (takeWhile is_digit s2)
      in if n > ULONG_MAX then ULONG_MAX
         else if negative then (2 ^ 64 - n) mod 2 ^ 64
         else n)"

definition example_xpcom :: xpcom where
  "example_xpcom =
     \<lparr>Split = (\<lambda>s c. split_at_delim c s),
      ParseString = (\<lambda>s c. filter (\<lambda>w. w \<noteq> []) (split_at_delim c s)),
      strtoul = strtoul_base10,
      CompareVersions =
        (\<lambda>s t. int (digits_value (takeWhile is_digit s)) -
               int (digits_value (takeWhile is_digit t))),
      GetApplicationVersion = ''140''\<rparr>"

text \<open>The three early exits of \<^verbatim>\<open>FindBlocklistedDeviceInList\<close>, which return the
  literal \<^verbatim>\<open>0\<close> before any rule is looked at.\<close>

definition returns_before_scan :: "('d, 'v) machine \<Rightarrow> bool" where
  "returns_before_scan m =
     ((NS_FAILED (fst (GetWindowProtocol m)) \<and>
       fst (GetWindowProtocol m) \<noteq> NS_ERROR_NOT_IMPLEMENTED) \<or>
      (NS_FAILED (fst (GetHasBattery m)) \<and>
       fst (GetHasBattery m) \<noteq> NS_ERROR_NOT_IMPLEMENTED) \<or>
      (fst (adapterInfoFailed m) \<and> snd (adapterInfoFailed m)))"

text \<open>Machines and rules for the scenarios below: an NVidia 310M as second adapter; an
  adapter whose device id is empty, for which the lookup in a device family of
  \<open>example_h\<close> fails; a rule of the allow family; a rule restricted to two devices;
  and the operating system \<^verbatim>\<open>Linux\<close> of the GTK build.\<close>

definition nvidia_310m_adapter :: adapter_getters where
  "nvidia_310m_adapter =
     \<lparr>GetAdapterVendorID = (NS_OK, ''0x10DE''),
      GetAdapterDeviceID = (NS_OK, ''0x0a70''),
      GetAdapterDriverVendor = (NS_OK, []),
      GetAdapterDriverVersion = (NS_OK, [])\<rparr>"

definition nvidia_310m_machine :: "(string list, nat) machine" where
  "nvidia_310m_machine = example_machine\<lparr>adapter2 := nvidia_310m_adapter\<rparr>"

definition empty_device_id_machine :: "(string list, nat) machine" where
  "empty_device_id_machine =
     example_machine\<lparr>adapter := intel_adapter\<lparr>GetAdapterDeviceID := (NS_OK, [])\<rparr>\<rparr>"

definition allow_rule :: "(string list, nat) GfxDriverInfo" where
  "allow_rule = example_rule\<lparr>mFeatureStatus := FEATURE_ALLOW_ALWAYS\<rparr>"

definition two_devices_rule :: "(string list, nat) GfxDriverInfo" where
  "two_devices_rule = example_rule\<lparr>mDevices := Some [''0x2582'', ''0x2782'']\<rparr>"

definition Linux :: OperatingSystem where
  "Linux = OperatingSystem_Other 0"

text \<open>The state after \<^verbatim>\<open>GetData\<close> on the example machine.\<close>

definition example_state1 :: GfxInfoBase_state where
  "example_state1 = GetData example_machine example_state"

text \<open>What the caller of \<^verbatim>\<open>GetFeatureStatus\<close> sees of a call that returns: the
  \<^verbatim>\<open>nsresult\<close>, the status and the failure id.\<close>

fun returned ::
  "fatal + nsresult \<times> FeatureStatus \<times> string \<times> GfxInfoBase_state \<Rightarrow>
   (nsresult \<times> FeatureStatus \<times> string) option" where
  "returned (Inl e) = None"
| "returned (Inr (rv, status, failureId, st)) = Some (rv, status, failureId)"

text \<open>The first adapter's attributes as \<^verbatim>\<open>GetFeatureStatusImpl\<close> reads them.\<close>

definition adapter_unresolved :: "('d, 'v) machine \<Rightarrow> bool" where
  "adapter_unresolved m =
     (NS_FAILED (fst (GetAdapterVendorID (adapter m))) \<or>
      NS_FAILED (fst (GetAdapterDeviceID (adapter m))) \<or>
      NS_FAILED (fst (GetAdapterDriverVersion (adapter m))))"

text \<open>A content process that holds a snapshot in which Direct2D is fine, and a store
  with an override for Direct2D of status \<open>v\<close>.\<close>

definition content_machine :: "(string list, nat) machine" where
  "content_machine = example_machine\<lparr>XRE_process := ContentProcess\<rparr>"

definition overridden_state :: "FeatureStatus \<Rightarrow> GfxInfoBase_state" where
  "overridden_state v =
     example_state
       \<lparr>sFeatureStatus :=
          Some [\<lparr>fs_feature = 1, fs_status = FEATURE_STATUS_OK, fs_failureId = []\<rparr>],
        prefs :=
          [''gfx.blacklist.direct2d'' \<mapsto> PrefInt v,
           ''gfx.blacklist.direct2d.failureid'' \<mapsto> PrefString ''FEATURE_FAILURE_STORED'']\<rparr>"

text \<open>A machine whose first adapter cannot be read, a rule for the GPU process only, and
  a downloaded record whose \<^verbatim>\<open>featureStatus\<close> is not a status name, with the store in
  which the GPU process is overridden.\<close>

definition no_adapter_machine :: "(string list, nat) machine" where
  "no_adapter_machine = example_machine\<lparr>adapter := no_adapter\<rparr>"

definition gpu_process_rule :: "(string list, nat) GfxDriverInfo" where
  "gpu_process_rule = example_rule\<lparr>mFeature := 2\<rparr>"

definition misspelt_status_record :: string where
  "misspelt_status_record =
     ''os:WINNT 10.0'' @ [CHR 0x09] @ ''featureStatus:BLOCKED_DRIVER'' @ [CHR 0x09] @
     ''feature:GPU_PROCESS''"

definition gpu_process_overridden :: GfxInfoBase_state where
  "gpu_process_overridden =
     example_state\<lparr>prefs := [''gfx.blacklist.gpu.process'' \<mapsto> PrefInt FEATURE_BLOCKED_DEVICE]\<rparr>"

text \<open>Machines whose first adapter reports everything but its driver vendor: one with
  no second adapter, one whose second adapter is a readable Intel device.\<close>

definition driver_vendor_unreadable_adapter :: adapter_getters where
  "driver_vendor_unreadable_adapter =
     intel_adapter\<lparr>GetAdapterDriverVendor := (NS_ERROR_FAILURE, [])\<rparr>"

definition driver_vendor_unreadable_machine :: "(string list, nat) machine" where
  "driver_vendor_unreadable_machine =
     example_machine\<lparr>adapter := driver_vendor_unreadable_adapter\<rparr>"

definition driver_vendor_unreadable_machine2 :: "(string list, nat) machine" where
  "driver_vendor_unreadable_machine2 =
     example_machine\<lparr>adapter := driver_vendor_unreadable_adapter, adapter2 := intel_adapter\<rparr>"

text \<open>The preferences that one iteration of the replay, for the feature \<open>feature\<close>, may
  write or clear: the feature's own preference, its failure id, and the suggested
  driver version.\<close>

definition written_prefs :: "GfxInfoDefs \<Rightarrow> int \<Rightarrow> string list" where
  "written_prefs d feature =
     (case GetPrefNameForFeature d feature of
        None \<Rightarrow> [SUGGESTED_VERSION_PREF]
      | Some prefname \<Rightarrow> [prefname, prefname @ ''.failureid'', SUGGESTED_VERSION_PREF])"

text \<open>The members of the object that the scan reads.\<close>

definition screen_members :: "GfxInfoBase_state \<Rightarrow> int \<times> nat \<times> int \<times> int" where
  "screen_members st =
     (this_mScreenPixels st, this_mScreenCount st, this_mMinRefreshRate st,
      this_mMaxRefreshRate st)"

section \<open>Properties\<close>

subsection \<open>Words\<close>

lemma unat_low16: "unat ((sys :: 64 word) AND 0xFFFF) = unat sys mod 2 ^ 16"
proof -
  have "sys AND 0xFFFF = take_bit 16 sys"
    by (simp add: take_bit_eq_mask mask_eq_exp_minus_1)
  then have "unat (sys AND 0xFFFF) = take_bit 16 (unat sys)"
    by (simp only: unsigned_take_bit_eq)
  then show ?thesis
    by (simp only: take_bit_eq_mod)
qed

lemma field16: "drop_bit k ((v :: 64 word) AND push_bit k (mask 16)) = take_bit 16 (drop_bit k v)"
  by (rule bit_word_eqI) (auto simp: bit_simps dest: bit_imp_le_length)

lemma unat_field16:
  "unat (drop_bit k ((v :: 64 word) AND push_bit k (mask 16))) = unat v div 2 ^ k mod 2 ^ 16"
proof -
  have "unat (drop_bit k (v AND push_bit k (mask 16))) = take_bit 16 (drop_bit k (unat v))"
    by (simp only: field16 unsigned_take_bit_eq unat_drop_bit_eq)
  then show ?thesis
    by (simp only: take_bit_eq_mod drop_bit_eq_div)
qed

lemma format_driver_version_fields:
  "format_driver_version v =
     decimal (unat v div 2 ^ 48 mod 2 ^ 16) @ ''.'' @
     decimal (unat v div 2 ^ 32 mod 2 ^ 16) @ ''.'' @
     decimal (unat v div 2 ^ 16 mod 2 ^ 16) @ ''.'' @
     decimal (unat v mod 2 ^ 16)"
proof -
  have c48: "(0xffff000000000000 :: 64 word) = push_bit 48 (mask 16)"
    by (simp add: mask_eq_exp_minus_1)
  have c32: "(0x0000ffff00000000 :: 64 word) = push_bit 32 (mask 16)"
    by (simp add: mask_eq_exp_minus_1)
  have c16: "(0x00000000ffff0000 :: 64 word) = push_bit 16 (mask 16)"
    by (simp add: mask_eq_exp_minus_1)
  show ?thesis
    unfolding format_driver_version_def c48 c32 c16 unat_field16 unat_low16 ..
qed

subsection \<open>The scan, by the way its loop ends\<close>

lemma Find_returns_before_scan:
  "returns_before_scan m \<Longrightarrow>
   FindBlocklistedDeviceInList b h g m st info aSuggestedVersion aFeature aFailureId os
     aForAllowing = (FEATURE_STATUS_LITERAL_0, aSuggestedVersion, aFailureId)"
  by (auto simp: FindBlocklistedDeviceInList_def returns_before_scan_def)

lemma Find_scan:
  assumes "\<not> returns_before_scan m"
  shows "FindBlocklistedDeviceInList b h g m st info aSuggestedVersion aFeature aFailureId os
           aForAllowing =
         (let ex = scan_loop (loop_body b h g m st aFeature os aForAllowing) info;
            (status, failureId) = status_after_loop ex aFailureId;
            (status, failureId) =
              (if nv310m_block b h g m aFeature status
               then (FEATURE_BLOCKED_DEVICE, ''FEATURE_FAILURE_D2D_NV310M_BLOCK'')
               else (status, failureId));
            suggestedVersion =
              (if XP_WIN b \<and> status = FEATURE_BLOCKED_DRIVER_VERSION
               then (case ex of
                       Loop_break r assigned \<Rightarrow>
                         aSuggestedVersion @ suggested_version_suffix h r
                     | Loop_end \<Rightarrow> aSuggestedVersion)
               else aSuggestedVersion)
        in (status, suggestedVersion, failureId))"
proof -
  from assms
  have 1: "\<not> (NS_FAILED (fst (GetWindowProtocol m)) \<and>
              fst (GetWindowProtocol m) \<noteq> NS_ERROR_NOT_IMPLEMENTED)"
    and 2: "\<not> (NS_FAILED (fst (GetHasBattery m)) \<and>
              fst (GetHasBattery m) \<noteq> NS_ERROR_NOT_IMPLEMENTED)"
    and 3: "\<not> (fst (adapterInfoFailed m) \<and> snd (adapterInfoFailed m))"
    unfolding returns_before_scan_def by blast+
  show ?thesis
    unfolding FindBlocklistedDeviceInList_def by (simp only: 1 2 3 if_False)
qed

lemma Find_unassigned:
  assumes "\<not> returns_before_scan m"
    and "scan_loop (loop_body b h g m st aFeature os aForAllowing) info = Loop_end \<or>
         scan_loop (loop_body b h g m st aFeature os aForAllowing) info = Loop_break r False"
  shows "FindBlocklistedDeviceInList b h g m st info aSuggestedVersion aFeature aFailureId os
           aForAllowing =
         (if nv310m_block b h g m aFeature FEATURE_STATUS_UNKNOWN
          then (FEATURE_BLOCKED_DEVICE, aSuggestedVersion, ''FEATURE_FAILURE_D2D_NV310M_BLOCK'')
          else (FEATURE_STATUS_UNKNOWN, aSuggestedVersion, aFailureId))"
  using assms(2)
  by (auto simp: Find_scan [OF assms(1)] status_after_loop_def)

lemma Find_assigned:
  assumes "\<not> returns_before_scan m"
    and "scan_loop (loop_body b h g m st aFeature os aForAllowing) info = Loop_break r True"
    and "mFeatureStatus r \<noteq> FEATURE_STATUS_UNKNOWN"
  shows "FindBlocklistedDeviceInList b h g m st info aSuggestedVersion aFeature aFailureId os
           aForAllowing =
         (mFeatureStatus r,
          if XP_WIN b \<and> mFeatureStatus r = FEATURE_BLOCKED_DRIVER_VERSION
          then aSuggestedVersion @ suggested_version_suffix h r else aSuggestedVersion,
          if mRuleId r \<noteq> [] then mRuleId r else ''FEATURE_FAILURE_DL_BLOCKLIST_NO_ID'')"
  using assms(2,3)
  by (simp add: Find_scan [OF assms(1)] status_after_loop_def nv310m_block_def)

text \<open>The status is \<^verbatim>\<open>FEATURE_BLOCKED_DRIVER_VERSION\<close> only after a rule assigned it, so
  the read of \<^verbatim>\<open>info[i]\<close> after the loop is in range.\<close>

lemma blocked_driver_version_in_range:
  assumes "fst (FindBlocklistedDeviceInList b h g m st info aSuggestedVersion aFeature aFailureId
                  os aForAllowing) = FEATURE_BLOCKED_DRIVER_VERSION"
  shows "\<exists>r. scan_loop (loop_body b h g m st aFeature os aForAllowing) info = Loop_break r True"
proof (cases "returns_before_scan m")
  case True
  with assms show ?thesis
    by (simp add: Find_returns_before_scan)
next
  case False
  show ?thesis
  proof (cases "scan_loop (loop_body b h g m st aFeature os aForAllowing) info")
    case Loop_end
    with assms False show ?thesis
      by (simp add: Find_unassigned split: if_splits)
  next
    case (Loop_break r assigned)
    with assms False show ?thesis
      by (cases assigned) (simp_all add: Find_unassigned split: if_splits)
  qed
qed

lemma loop_body_other_mode:
  "MatchingAllowStatus (mFeatureStatus r) \<noteq> aForAllowing \<Longrightarrow>
   loop_body b h g m st aFeature os aForAllowing r = Continue"
  by (simp add: loop_body_def rule_head_passes_def)

lemma scan_loop_all_continue:
  "\<forall>r \<in> set info. body r = Continue \<Longrightarrow> scan_loop body info = Loop_end"
  by (induction info) simp_all

lemma scan_loop_break_in_list:
  "scan_loop body info = Loop_break r assigned \<Longrightarrow> r \<in> set info"
  by (induction info) (auto split: loop_step.splits)

subsection \<open>A failed device lookup\<close>

text \<open>
  C1 (the code departs from the claim and from its own comment). The comment at the
  failed lookup says the blocklist should match for safety. The \<^verbatim>\<open>break\<close> there
  leaves the loop before \<^verbatim>\<open>status\<close> is assigned, so in block mode the scan ends with
  \<^verbatim>\<open>FEATURE_STATUS_UNKNOWN\<close> and passes over the rules after it. Here the adapter's
  device id is empty, the lookup in the rule's two-device family fails with
  \<^verbatim>\<open>NS_ERROR_INVALID_ARG\<close>, and the scan of the rule alone, or of the rule followed
  by a rule that matches the machine, returns unknown instead of the rule's
  \<^verbatim>\<open>FEATURE_BLOCKED_DEVICE\<close>.
\<close>

theorem failed_device_lookup_ends_block_scan_unmatched:
  "DeviceFamily_IsEmpty example_h [''0x2582'', ''0x2782''] = False \<and>
   DeviceFamily_Contains example_h [''0x2582'', ''0x2782''] [] = NS_ERROR_INVALID_ARG \<and>
   mFeatureStatus two_devices_rule = FEATURE_BLOCKED_DEVICE \<and>
   FindBlocklistedDeviceInList windows_build example_h example_g empty_device_id_machine
     example_state1 [two_devices_rule] [] 2 [] OperatingSystem_Windows10 False =
   (FEATURE_STATUS_UNKNOWN, [], []) \<and>
   FindBlocklistedDeviceInList windows_build example_h example_g empty_device_id_machine
     example_state1 [two_devices_rule, example_rule] [] 2 [] OperatingSystem_Windows10 False =
   (FEATURE_STATUS_UNKNOWN, [], []) \<and>
   FindBlocklistedDeviceInList windows_build example_h example_g empty_device_id_machine
     example_state1 [example_rule] [] 2 [] OperatingSystem_Windows10 False =
   (FEATURE_BLOCKED_DEVICE, [], ''FEATURE_FAILURE_EXAMPLE'')"
  by code_simp

subsection \<open>Comparator tokens\<close>

lemma find_name_None:
  "name \<notin> fst ` set xs \<Longrightarrow> find (\<lambda>(name', y). name = name') xs = None"
  by (induction xs) auto

text \<open>
  C2, as the claim states it, fails: a comparator token that is no operator name is
  read as \<^verbatim>\<open>DRIVER_COMPARISON_IGNORED\<close>, under which the rule matches. The misspelt
  token \<open>LESS_THAN_OR_EQAL\<close> on a rule with the bound 1.0.0.0 gives a rule that
  blocks the machine with driver 8.52.322.2200, which the rule with the operator
  spelt right does not match.
\<close>

theorem misspelt_comparator_matches:
  "''LESS_THAN_OR_EQAL'' \<notin> fst ` set (GfxInfoDriverVersionCmpDefs example_defs) \<and>
   parse_key_value example_xpcom example_h example_g example_defs
     ''driverVersionComparator'' ''LESS_THAN_OR_EQAL''
     (example_rule\<lparr>mDriverVersion := V 1 0 0 0\<rparr>) =
   Some (example_rule\<lparr>mDriverVersion := V 1 0 0 0, mComparisonOp := DRIVER_COMPARISON_IGNORED\<rparr>) \<and>
   FindBlocklistedDeviceInList windows_build example_h example_g example_machine example_state1
     [example_rule\<lparr>mDriverVersion := V 1 0 0 0, mComparisonOp := DRIVER_COMPARISON_IGNORED\<rparr>]
     [] 2 [] OperatingSystem_Windows10 False =
   (FEATURE_BLOCKED_DEVICE, [], ''FEATURE_FAILURE_EXAMPLE'') \<and>
   FindBlocklistedDeviceInList windows_build example_h example_g example_machine example_state1
     [example_rule\<lparr>mDriverVersion := V 1 0 0 0, mComparisonOp := DRIVER_LESS_THAN_OR_EQUAL\<rparr>]
     [] 2 [] OperatingSystem_Windows10 False =
   (FEATURE_STATUS_UNKNOWN, [], [])"
  by code_simp

text \<open>
  C2, amended: a comparator token that is not an operator name of the definitions
  table is read as \<^verbatim>\<open>DRIVER_COMPARISON_IGNORED\<close>, and the driver-version
  comparison and the refresh-rate comparison it governs hold for every system value
  and every bound. An operator value that is none of the named ones gives no match,
  in the driver-version \<^verbatim>\<open>switch\<close> and in the refresh-rate comparison.
\<close>

theorem unrecognized_comparator_is_ignored:
  assumes "op \<notin> fst ` set (GfxInfoDriverVersionCmpDefs d)"
  shows "BlocklistComparatorToComparisonOp d op = DRIVER_COMPARISON_IGNORED \<and>
         driver_version_match b (BlocklistComparatorToComparisonOp d op) sys lo hi \<and>
         MatchingRefreshRates aSystem aBlocked aBlockedMax
           (BlocklistComparatorToComparisonOp d op) \<and>
         driver_version_switch (DRIVER_OTHER n) sys lo hi = False \<and>
         MatchingRefreshRates aSystem aBlocked aBlockedMax (DRIVER_OTHER n) = False"
  using assms
  by (simp add: BlocklistComparatorToComparisonOp_def find_name_None driver_version_match_def)

text \<open>Witness for C2: the misspelt token against the table of the twelve operator
  names.\<close>

theorem unrecognized_comparator_is_ignored_witness:
  "''LESS_THAN_OR_EQAL'' \<notin> fst ` set (GfxInfoDriverVersionCmpDefs example_defs) \<and>
   BlocklistComparatorToComparisonOp example_defs ''LESS_THAN_OR_EQAL'' =
     DRIVER_COMPARISON_IGNORED \<and>
   driver_version_match windows_build
     (BlocklistComparatorToComparisonOp example_defs ''LESS_THAN_OR_EQAL'')
     (V 8 52 322 2200) (V 1 0 0 0) 0"
proof -
  have a: "''LESS_THAN_OR_EQAL'' \<notin> fst ` set (GfxInfoDriverVersionCmpDefs example_defs)"
    by (simp add: example_defs_def)
  from a unrecognized_comparator_is_ignored
    [OF a, where b = windows_build and sys = "V 8 52 322 2200" and lo = "V 1 0 0 0" and hi = 0]
  show ?thesis
    by blast
qed

subsection \<open>The suggested driver version\<close>

text \<open>
  C3, as the claim states it, fails: the block that fills the suggested version is
  compiled on Windows builds only. On the GTK build the rule with
  \<^verbatim>\<open>DRIVER_LESS_THAN\<close> and the bound 8.52.322.2202 wins the scan for the machine
  with driver 8.52.322.2200, with status \<^verbatim>\<open>FEATURE_BLOCKED_DRIVER_VERSION\<close>, and
  the suggested version stays empty.
\<close>

theorem no_suggested_version_off_windows:
  "scan_loop
     (loop_body gtk_build example_h example_g example_machine example_state1 2 Linux False)
     [example_rule\<lparr>mOperatingSystem := Linux, mFeatureStatus := FEATURE_BLOCKED_DRIVER_VERSION,
        mComparisonOp := DRIVER_LESS_THAN, mDriverVersion := V 8 52 322 2202\<rparr>] =
   Loop_break
     (example_rule\<lparr>mOperatingSystem := Linux, mFeatureStatus := FEATURE_BLOCKED_DRIVER_VERSION,
        mComparisonOp := DRIVER_LESS_THAN, mDriverVersion := V 8 52 322 2202\<rparr>) True \<and>
   FindBlocklistedDeviceInList gtk_build example_h example_g example_machine example_state1
     [example_rule\<lparr>mOperatingSystem := Linux, mFeatureStatus := FEATURE_BLOCKED_DRIVER_VERSION,
        mComparisonOp := DRIVER_LESS_THAN, mDriverVersion := V 8 52 322 2202\<rparr>]
     [] 2 [] Linux False =
   (FEATURE_BLOCKED_DRIVER_VERSION, [], ''FEATURE_FAILURE_EXAMPLE'')"
  by code_simp

text \<open>
  C3, amended: when the scan reaches its loop and the rule \<open>r\<close> that wins it has status
  \<^verbatim>\<open>FEATURE_BLOCKED_DRIVER_VERSION\<close>, then on a Windows build the suggested version
  after the call is the one before it followed by: the rule's explicit suggested
  version if it has one; otherwise, exactly when the rule's comparator is
  \<^verbatim>\<open>DRIVER_LESS_THAN\<close> and its bound is not the all-versions sentinel, the four
  16-bit fields of the bound in decimal, joined by dots; and nothing for any other
  comparator. On every other build the suggested version is left as it was.
\<close>

theorem suggested_version_of_winning_rule:
  assumes "\<not> returns_before_scan m"
    and "scan_loop (loop_body b h g m st aFeature os aForAllowing) info = Loop_break r True"
    and "mFeatureStatus r = FEATURE_BLOCKED_DRIVER_VERSION"
  shows "fst (snd (FindBlocklistedDeviceInList b h g m st info aSuggestedVersion aFeature
                     aFailureId os aForAllowing)) =
         (if XP_WIN b
          then aSuggestedVersion @
            (case mSuggestedVersion r of
               Some s \<Rightarrow> s
             | None \<Rightarrow>
                 if mComparisonOp r = DRIVER_LESS_THAN \<and> mDriverVersion r \<noteq> allDriverVersions h
                 then decimal (unat (mDriverVersion r) div 2 ^ 48 mod 2 ^ 16) @ ''.'' @
                      decimal (unat (mDriverVersion r) div 2 ^ 32 mod 2 ^ 16) @ ''.'' @
                      decimal (unat (mDriverVersion r) div 2 ^ 16 mod 2 ^ 16) @ ''.'' @
                      decimal (unat (mDriverVersion r) mod 2 ^ 16)
                 else [])
          else aSuggestedVersion)"
  using assms
  by (auto simp: Find_assigned suggested_version_suffix_def format_driver_version_fields
      split: option.split)

text \<open>Witness for C3: on the Windows build the rule with \<^verbatim>\<open>DRIVER_LESS_THAN\<close> and the
  bound 8.52.322.2202 wins, after an allow rule that the block-mode scan skips, and
  the suggested version is the bound.\<close>

theorem suggested_version_of_winning_rule_witness:
  "\<not> returns_before_scan example_machine \<and>
   scan_loop (loop_body windows_build example_h example_g example_machine example_state1 2
       OperatingSystem_Windows10 False)
     [allow_rule,
      example_rule\<lparr>mFeatureStatus := FEATURE_BLOCKED_DRIVER_VERSION,
        mComparisonOp := DRIVER_LESS_THAN, mDriverVersion := V 8 52 322 2202\<rparr>] =
   Loop_break
     (example_rule\<lparr>mFeatureStatus := FEATURE_BLOCKED_DRIVER_VERSION,
        mComparisonOp := DRIVER_LESS_THAN, mDriverVersion := V 8 52 322 2202\<rparr>) True \<and>
   fst (snd (FindBlocklistedDeviceInList windows_build example_h example_g example_machine
     example_state1
     [allow_rule,
      example_rule\<lparr>mFeatureStatus := FEATURE_BLOCKED_DRIVER_VERSION,
        mComparisonOp := DRIVER_LESS_THAN, mDriverVersion := V 8 52 322 2202\<rparr>]
     [] 2 [] OperatingSystem_Windows10 False)) = ''8.52.322.2202''"
proof -
  let ?r = "example_rule\<lparr>mFeatureStatus := FEATURE_BLOCKED_DRIVER_VERSION,
        mComparisonOp := DRIVER_LESS_THAN, mDriverVersion := V 8 52 322 2202\<rparr>"
  have e: "\<not> returns_before_scan example_machine"
    by code_simp
  have w: "scan_loop (loop_body windows_build example_h example_g example_machine example_state1 2
       OperatingSystem_Windows10 False) [allow_rule, ?r] = Loop_break ?r True"
    by code_simp
  have s: "mFeatureStatus ?r = FEATURE_BLOCKED_DRIVER_VERSION"
    by simp
  have x: "XP_WIN windows_build"
    by (simp add: windows_build_def)
  have c: "mSuggestedVersion ?r = None \<and> mComparisonOp ?r = DRIVER_LESS_THAN \<and>
           mDriverVersion ?r \<noteq> allDriverVersions example_h"
    by code_simp
  have f: "format_driver_version (mDriverVersion ?r) = ''8.52.322.2202''"
    by code_simp
  from suggested_version_of_winning_rule [OF e w s, of "[]" "[]"] x c f
  have "fst (snd (FindBlocklistedDeviceInList windows_build example_h example_g example_machine
     example_state1 [allow_rule, ?r] [] 2 [] OperatingSystem_Windows10 False)) = ''8.52.322.2202''"
    by (simp add: format_driver_version_fields)
  with e w show ?thesis
    by blast
qed

subsection \<open>Allow rules in a block-mode scan\<close>

text \<open>
  C9, as the claim states it, fails: a block-mode scan of a list of allow rules does not
  always return unknown. On the Windows build, for Direct2D on a machine whose second
  adapter is the NVidia 310M, it returns \<^verbatim>\<open>FEATURE_BLOCKED_DEVICE\<close> from the special
  case after the loop.
\<close>

theorem allow_only_list_blocked_by_special_case:
  "MatchingAllowStatus (mFeatureStatus allow_rule) \<and>
   FindBlocklistedDeviceInList windows_build example_h example_g nvidia_310m_machine
     example_state1 [allow_rule] [] (FEATURE_DIRECT2D example_g) [] OperatingSystem_Windows10
     False =
   (FEATURE_BLOCKED_DEVICE, [], ''FEATURE_FAILURE_D2D_NV310M_BLOCK'')"
  by code_simp

text \<open>
  C9, amended: for a list in which every rule has an allow status, the block-mode scan
  skips every rule, so no rule of the list wins. It returns the literal \<^verbatim>\<open>0\<close> when
  the window protocol, the battery state or both adapters cannot be read; otherwise
  \<^verbatim>\<open>FEATURE_BLOCKED_DEVICE\<close> when the special case for the NVidia 310M applies (a
  Windows build, Direct2D, that device as second adapter); otherwise
  \<^verbatim>\<open>FEATURE_STATUS_UNKNOWN\<close>, with the failure id unchanged. The suggested version
  is unchanged in all three cases.
\<close>

theorem allow_only_list_block_scan:
  assumes "\<forall>r \<in> set info. MatchingAllowStatus (mFeatureStatus r)"
  shows "FindBlocklistedDeviceInList b h g m st info aSuggestedVersion aFeature aFailureId os
           False =
         (if returns_before_scan m
          then (FEATURE_STATUS_LITERAL_0, aSuggestedVersion, aFailureId)
          else if nv310m_block b h g m aFeature FEATURE_STATUS_UNKNOWN
          then (FEATURE_BLOCKED_DEVICE, aSuggestedVersion, ''FEATURE_FAILURE_D2D_NV310M_BLOCK'')
          else (FEATURE_STATUS_UNKNOWN, aSuggestedVersion, aFailureId))"
proof (cases "returns_before_scan m")
  case True
  then show ?thesis
    by (simp add: Find_returns_before_scan)
next
  case False
  from assms have "\<forall>r \<in> set info. loop_body b h g m st aFeature os False r = Continue"
    by (simp add: loop_body_other_mode)
  then have "scan_loop (loop_body b h g m st aFeature os False) info = Loop_end"
    by (rule scan_loop_all_continue)
  with False show ?thesis
    by (simp add: Find_unassigned)
qed

text \<open>Witness for C9: two allow rules, which match the machine in everything but the
  mode of the scan.\<close>

theorem allow_only_list_block_scan_witness:
  "MatchingAllowStatus (mFeatureStatus allow_rule) \<and>
   MatchingAllowStatus (mFeatureStatus (allow_rule\<lparr>mFeatureStatus := FEATURE_ALLOW_QUALIFIED\<rparr>)) \<and>
   FindBlocklistedDeviceInList windows_build example_h example_g example_machine
     example_state1 [allow_rule, allow_rule\<lparr>mFeatureStatus := FEATURE_ALLOW_QUALIFIED\<rparr>] []
     (FEATURE_DIRECT2D example_g) [] OperatingSystem_Windows10 False =
   (FEATURE_STATUS_UNKNOWN, [], [])"
proof -
  have a: "\<forall>r \<in> set [allow_rule, allow_rule\<lparr>mFeatureStatus := FEATURE_ALLOW_QUALIFIED\<rparr>].
      MatchingAllowStatus (mFeatureStatus r)"
    by (simp add: allow_rule_def)
  have e: "\<not> returns_before_scan example_machine"
    by code_simp
  have n: "\<not> nv310m_block windows_build example_h example_g example_machine
               (FEATURE_DIRECT2D example_g) FEATURE_STATUS_UNKNOWN"
    by code_simp
  from a allow_only_list_block_scan
    [OF a, of windows_build example_h example_g example_machine example_state1
      "[]" "FEATURE_DIRECT2D example_g" "[]" OperatingSystem_Windows10] e n
  show ?thesis
    by (simp add: allow_rule_def)
qed

subsection \<open>The build-id comparators\<close>

text \<open>
  C6, as the claim states it, fails: the \<^verbatim>\<open>switch\<close> masks the system driver version
  with \<^verbatim>\<open>0xFFFF\<close> and compares it with the whole \<^verbatim>\<open>mDriverVersion\<close> of the rule.
  On a Windows build, the system version 9.0.0.5000 passes
  \<^verbatim>\<open>DRIVER_BUILD_ID_LESS_THAN\<close> against the bound 8.52.322.2202, since 5000 is less
  than the packed bound, although 5000 is not less than 2202.
\<close>

theorem build_id_bound_is_not_masked:
  "driver_version_passes windows_build example_h
     (example_rule\<lparr>mComparisonOp := DRIVER_BUILD_ID_LESS_THAN, mDriverVersion := V 8 52 322 2202\<rparr>)
     (V 9 0 0 5000) \<and>
   \<not> unat (V 9 0 0 5000) mod 2 ^ 16 < unat (V 8 52 322 2202) mod 2 ^ 16"
proof
  show "driver_version_passes windows_build example_h
     (example_rule\<lparr>mComparisonOp := DRIVER_BUILD_ID_LESS_THAN, mDriverVersion := V 8 52 322 2202\<rparr>)
     (V 9 0 0 5000)"
    by code_simp
  have s: "V 9 0 0 5000 AND 0xFFFF = (5000 :: 64 word)"
    by code_simp
  have l: "V 8 52 322 2202 AND 0xFFFF = (2202 :: 64 word)"
    by code_simp
  show "\<not> unat (V 9 0 0 5000) mod 2 ^ 16 < unat (V 8 52 322 2202) mod 2 ^ 16"
    unfolding unat_low16 [symmetric] s l by simp
qed

text \<open>
  C6, amended: on a build that compares driver versions (Windows, Android, GTK), a rule
  with \<^verbatim>\<open>DRIVER_BUILD_ID_LESS_THAN\<close> passes the driver-version condition exactly when
  the system version modulo \<open>2 ^ 16\<close> is less than the rule's bound, taken whole, or
  the bound is the all-versions sentinel; with \<^verbatim>\<open>DRIVER_BUILD_ID_LESS_THAN_OR_EQUAL\<close>,
  exactly when it is less than or equal to the bound, or the bound is the sentinel.
\<close>

theorem build_id_compares_low_bits_of_system_with_whole_bound:
  assumes "XP_WIN b \<or> ANDROID b \<or> MOZ_WIDGET_GTK b"
  shows "(driver_version_passes b h (r\<lparr>mComparisonOp := DRIVER_BUILD_ID_LESS_THAN\<rparr>) sys \<longleftrightarrow>
            unat sys mod 2 ^ 16 < unat (mDriverVersion r) \<or>
            mDriverVersion r = allDriverVersions h) \<and>
         (driver_version_passes b h (r\<lparr>mComparisonOp := DRIVER_BUILD_ID_LESS_THAN_OR_EQUAL\<rparr>)
            sys \<longleftrightarrow>
            unat sys mod 2 ^ 16 \<le> unat (mDriverVersion r) \<or>
            mDriverVersion r = allDriverVersions h)"
  using assms
  by (simp add: driver_version_passes_def driver_version_match_def word_less_nat_alt
      word_le_nat_alt unat_low16)

text \<open>Witness for C6: the system version 8.52.322.2200 on a Windows build, against the
  build-id bounds 2202 (less than) and 2200 (less than or equal).\<close>

theorem build_id_compares_low_bits_witness:
  "(XP_WIN windows_build \<or> ANDROID windows_build \<or> MOZ_WIDGET_GTK windows_build) \<and>
   driver_version_passes windows_build example_h
     (example_rule\<lparr>mDriverVersion := 2202, mComparisonOp := DRIVER_BUILD_ID_LESS_THAN\<rparr>)
     (V 8 52 322 2200) \<and>
   driver_version_passes windows_build example_h
     (example_rule\<lparr>mDriverVersion := 2200, mComparisonOp := DRIVER_BUILD_ID_LESS_THAN_OR_EQUAL\<rparr>)
     (V 8 52 322 2200)"
proof -
  have b: "XP_WIN windows_build \<or> ANDROID windows_build \<or> MOZ_WIDGET_GTK windows_build"
    by (simp add: windows_build_def)
  have low: "V 8 52 322 2200 AND 0xFFFF = (2200 :: 64 word)"
    by code_simp
  have lt: "unat (V 8 52 322 2200) mod 2 ^ 16 <
            unat (mDriverVersion (example_rule\<lparr>mDriverVersion := 2202\<rparr>))"
    unfolding unat_low16 [symmetric] low by simp
  have le: "unat (V 8 52 322 2200) mod 2 ^ 16 \<le>
            unat (mDriverVersion (example_rule\<lparr>mDriverVersion := 2200\<rparr>))"
    unfolding unat_low16 [symmetric] low by simp
  from lt build_id_compares_low_bits_of_system_with_whole_bound
    [OF b, of example_h "example_rule\<lparr>mDriverVersion := 2202\<rparr>" "V 8 52 322 2200"]
  have 1: "driver_version_passes windows_build example_h
     (example_rule\<lparr>mDriverVersion := 2202, mComparisonOp := DRIVER_BUILD_ID_LESS_THAN\<rparr>)
     (V 8 52 322 2200)"
    by blast
  from le build_id_compares_low_bits_of_system_with_whole_bound
    [OF b, of example_h "example_rule\<lparr>mDriverVersion := 2200\<rparr>" "V 8 52 322 2200"]
  have 2: "driver_version_passes windows_build example_h
     (example_rule\<lparr>mDriverVersion := 2200, mComparisonOp := DRIVER_BUILD_ID_LESS_THAN_OR_EQUAL\<rparr>)
     (V 8 52 322 2200)"
    by blast
  from b 1 2 show ?thesis
    by blast
qed

subsection \<open>Feature resolution\<close>

lemma Impl_resolving:
  assumes "0 < aFeature" and "\<not> sShutdownOccurred st"
  shows "GetFeatureStatusImpl b h g m st aFeature FEATURE_STATUS_UNKNOWN aSuggestedVersion
           aDriverInfo aFailureId aOS =
        (let st1 = GetData m st;
            os = (case aOS of Some os' \<Rightarrow> os' | None \<Rightarrow> OperatingSystem_Unknown)
        in if adapter_unresolved m
           then (if OnlyAllowFeatureOnKnownConfig b g aFeature
                 then (NS_OK, FEATURE_BLOCKED_DEVICE, aSuggestedVersion,
                       ''FEATURE_FAILURE_CANT_RESOLVE_ADAPTER'', st1)
                 else (NS_OK, FEATURE_STATUS_OK, aSuggestedVersion, aFailureId, st1))
           else
             let info = (if aDriverInfo \<noteq> [] then aDriverInfo else GetGfxDriverInfo m);
                 (status, suggestedVersion1, failureId1) =
                    FindBlocklistedDeviceInList b h g m st1 info aSuggestedVersion aFeature
                      aFailureId os False
             in if status = FEATURE_STATUS_UNKNOWN
                then (if IsFeatureAllowlisted g aFeature
                      then let (status2, suggestedVersion2, failureId2) =
                                 FindBlocklistedDeviceInList b h g m st1 info suggestedVersion1
                                   aFeature failureId1 os True
                           in (NS_OK,
                               if status2 = FEATURE_STATUS_UNKNOWN then FEATURE_DENIED
                               else status2,
                               suggestedVersion2, failureId2, st1)
                      else (NS_OK, FEATURE_STATUS_OK, suggestedVersion1, failureId1, st1))
                else (NS_OK, status, suggestedVersion1, failureId1, st1))"
proof -
  from assms have 1: "\<not> aFeature \<le> 0"
    by simp
  have 2: "\<not> FEATURE_STATUS_UNKNOWN \<noteq> FEATURE_STATUS_UNKNOWN"
    by simp
  show ?thesis
    unfolding GetFeatureStatusImpl_def adapter_unresolved_def
    by (simp only: 1 2 assms(2) if_False)
qed

text \<open>
  C8, as the claim states it, fails: the driver vendor is an adapter attribute, and
  \<^verbatim>\<open>GetFeatureStatusImpl\<close> does not read it before it decides on the default. On a
  machine whose first adapter reports everything but its driver vendor, Direct2D,
  which is only allowed on a known configuration, is not blocked: with no second
  adapter the scan returns the literal \<^verbatim>\<open>0\<close> and that is the result; with a
  readable second adapter the scan skips every rule for the first adapter and the
  result is \<^verbatim>\<open>FEATURE_STATUS_OK\<close>.
\<close>

theorem unreadable_driver_vendor_is_not_blocked:
  "adapter_getters_failed (adapter driver_vendor_unreadable_machine) \<and>
   OnlyAllowFeatureOnKnownConfig windows_build example_g 1 \<and>
   fst (snd (GetFeatureStatusImpl windows_build example_h example_g
     driver_vendor_unreadable_machine example_state 1 FEATURE_STATUS_UNKNOWN [] [] [] None)) =
   FEATURE_STATUS_LITERAL_0 \<and>
   adapter_getters_failed (adapter driver_vendor_unreadable_machine2) \<and>
   fst (snd (GetFeatureStatusImpl windows_build example_h example_g
     driver_vendor_unreadable_machine2 example_state 1 FEATURE_STATUS_UNKNOWN [] [] [] None)) =
   FEATURE_STATUS_OK"
  by code_simp

text \<open>
  C8, amended: when \<^verbatim>\<open>GetFeatureStatusImpl\<close> gets to read the adapter (a positive
  feature number, the status still unknown, no shutdown) and the vendor id, the device
  id or the driver version of the first adapter cannot be read, it returns \<^verbatim>\<open>NS_OK\<close>
  with \<^verbatim>\<open>FEATURE_BLOCKED_DEVICE\<close> and the failure id
  \<open>FEATURE_FAILURE_CANT_RESOLVE_ADAPTER\<close> for a feature that is only allowed on a
  known configuration, and with \<^verbatim>\<open>FEATURE_STATUS_OK\<close> and the failure id unchanged
  for every other feature. The driver vendor is not one of the three attributes.
\<close>

theorem unresolved_adapter_default:
  assumes "0 < aFeature" and "\<not> sShutdownOccurred st" and "adapter_unresolved m"
  shows "GetFeatureStatusImpl b h g m st aFeature FEATURE_STATUS_UNKNOWN aSuggestedVersion
           aDriverInfo aFailureId aOS =
         (if OnlyAllowFeatureOnKnownConfig b g aFeature
          then (NS_OK, FEATURE_BLOCKED_DEVICE, aSuggestedVersion,
                ''FEATURE_FAILURE_CANT_RESOLVE_ADAPTER'', GetData m st)
          else (NS_OK, FEATURE_STATUS_OK, aSuggestedVersion, aFailureId, GetData m st))"
  using assms(3) by (simp add: Impl_resolving [OF assms(1,2)])

text \<open>Witness for C8: no readable adapter on the Windows build; Direct2D is only allowed
  on a known configuration, the GPU process is not.\<close>

theorem unresolved_adapter_default_witness:
  "0 < (1 :: int) \<and> \<not> sShutdownOccurred example_state \<and> adapter_unresolved no_adapter_machine \<and>
   GetFeatureStatusImpl windows_build example_h example_g no_adapter_machine example_state 1
     FEATURE_STATUS_UNKNOWN [] [] [] None =
   (NS_OK, FEATURE_BLOCKED_DEVICE, [], ''FEATURE_FAILURE_CANT_RESOLVE_ADAPTER'',
    GetData no_adapter_machine example_state) \<and>
   GetFeatureStatusImpl windows_build example_h example_g no_adapter_machine example_state 2
     FEATURE_STATUS_UNKNOWN [] [] [] None =
   (NS_OK, FEATURE_STATUS_OK, [], [], GetData no_adapter_machine example_state)"
proof -
  have 1: "0 < (1 :: int)" and 2: "0 < (2 :: int)"
    by simp_all
  have s: "\<not> sShutdownOccurred example_state"
    by code_simp
  have a: "adapter_unresolved no_adapter_machine"
    by code_simp
  have k1: "OnlyAllowFeatureOnKnownConfig windows_build example_g 1"
    by code_simp
  have k2: "\<not> OnlyAllowFeatureOnKnownConfig windows_build example_g 2"
    by code_simp
  from unresolved_adapter_default
      [OF 1 s a, where b = windows_build and g = example_g and h = example_h
        and aSuggestedVersion = "[]" and aDriverInfo = "[]" and aFailureId = "[]" and aOS = None]
    unresolved_adapter_default
      [OF 2 s a, where b = windows_build and g = example_g and h = example_h
        and aSuggestedVersion = "[]" and aDriverInfo = "[]" and aFailureId = "[]" and aOS = None]
    k1 k2 s a
  show ?thesis
    by simp
qed

text \<open>
  C4: when \<^verbatim>\<open>GetFeatureStatusImpl\<close> gets to scan (a positive feature number, the
  status still unknown, no shutdown, the first adapter readable), the list scanned is
  the one passed in if it is not empty and the static list otherwise. If the
  block-mode scan of it returns \<^verbatim>\<open>FEATURE_STATUS_UNKNOWN\<close> then, for an allowlisted
  feature, the same list is scanned in allow mode, an unknown result of that scan
  becomes \<^verbatim>\<open>FEATURE_DENIED\<close> and any other result is returned; for a feature that
  is not allowlisted the result is \<^verbatim>\<open>FEATURE_STATUS_OK\<close>.
\<close>

theorem unknown_block_scan_resolution:
  assumes "0 < aFeature" and "\<not> sShutdownOccurred st" and "\<not> adapter_unresolved m"
    and "info = (if aDriverInfo \<noteq> [] then aDriverInfo else GetGfxDriverInfo m)"
    and "os = (case aOS of Some os' \<Rightarrow> os' | None \<Rightarrow> OperatingSystem_Unknown)"
    and "FindBlocklistedDeviceInList b h g m (GetData m st) info aSuggestedVersion aFeature
           aFailureId os False = (FEATURE_STATUS_UNKNOWN, suggestedVersion1, failureId1)"
    and "FindBlocklistedDeviceInList b h g m (GetData m st) info suggestedVersion1 aFeature
           failureId1 os True = (status2, suggestedVersion2, failureId2)"
  shows "GetFeatureStatusImpl b h g m st aFeature FEATURE_STATUS_UNKNOWN aSuggestedVersion
           aDriverInfo aFailureId aOS =
         (if IsFeatureAllowlisted g aFeature
          then (NS_OK, if status2 = FEATURE_STATUS_UNKNOWN then FEATURE_DENIED else status2,
                suggestedVersion2, failureId2, GetData m st)
          else (NS_OK, FEATURE_STATUS_OK, suggestedVersion1, failureId1, GetData m st))"
  using assms(3-7) by (simp add: Impl_resolving [OF assms(1,2)])

text \<open>Witness for C4: a downloaded list whose only rule is for the GPU process; the
  allowlisted zero-copy video feature is denied and Direct2D is fine.\<close>

theorem unknown_block_scan_resolution_witness:
  "0 < (6 :: int) \<and> \<not> sShutdownOccurred example_state \<and> \<not> adapter_unresolved example_machine \<and>
   IsFeatureAllowlisted example_g 6 \<and> \<not> IsFeatureAllowlisted example_g 1 \<and>
   GetFeatureStatusImpl windows_build example_h example_g example_machine example_state 6
     FEATURE_STATUS_UNKNOWN [] [gpu_process_rule] [] (Some OperatingSystem_Windows10) =
   (NS_OK, FEATURE_DENIED, [], [], GetData example_machine example_state) \<and>
   GetFeatureStatusImpl windows_build example_h example_g example_machine example_state 1
     FEATURE_STATUS_UNKNOWN [] [gpu_process_rule] [] (Some OperatingSystem_Windows10) =
   (NS_OK, FEATURE_STATUS_OK, [], [], GetData example_machine example_state)"
proof -
  have 6: "0 < (6 :: int)" and 1: "0 < (1 :: int)"
    by simp_all
  have s: "\<not> sShutdownOccurred example_state"
    by code_simp
  have a: "\<not> adapter_unresolved example_machine"
    by code_simp
  have i: "[gpu_process_rule] =
           (if [gpu_process_rule] \<noteq> [] then [gpu_process_rule]
            else GetGfxDriverInfo example_machine)"
    by simp
  have o: "OperatingSystem_Windows10 =
           (case Some OperatingSystem_Windows10 of Some os' \<Rightarrow> os'
            | None \<Rightarrow> OperatingSystem_Unknown)"
    by simp
  have b6: "FindBlocklistedDeviceInList windows_build example_h example_g example_machine
              (GetData example_machine example_state) [gpu_process_rule] [] 6 []
              OperatingSystem_Windows10 False = (FEATURE_STATUS_UNKNOWN, [], [])"
    by code_simp
  have a6: "FindBlocklistedDeviceInList windows_build example_h example_g example_machine
              (GetData example_machine example_state) [gpu_process_rule] [] 6 []
              OperatingSystem_Windows10 True = (FEATURE_STATUS_UNKNOWN, [], [])"
    by code_simp
  have b1: "FindBlocklistedDeviceInList windows_build example_h example_g example_machine
              (GetData example_machine example_state) [gpu_process_rule] [] 1 []
              OperatingSystem_Windows10 False = (FEATURE_STATUS_UNKNOWN, [], [])"
    by code_simp
  have a1: "FindBlocklistedDeviceInList windows_build example_h example_g example_machine
              (GetData example_machine example_state) [gpu_process_rule] [] 1 []
              OperatingSystem_Windows10 True = (FEATURE_STATUS_UNKNOWN, [], [])"
    by code_simp
  have l6: "IsFeatureAllowlisted example_g 6"
    by code_simp
  have l1: "\<not> IsFeatureAllowlisted example_g 1"
    by code_simp
  from unknown_block_scan_resolution [OF 6 s a i o b6 a6]
    unknown_block_scan_resolution [OF 1 s a i o b1 a1] l6 l1 s a
  show ?thesis
    by simp
qed

subsection \<open>The override of a feature\<close>

text \<open>
  C5, as the claim states it, fails: a stored \<^verbatim>\<open>FEATURE_DENIED\<close> is not returned.
  \<^verbatim>\<open>GetPrefValueForFeature\<close> answers \<^verbatim>\<open>false\<close> for it and resolution goes on; in a
  content process that holds a snapshot in which Direct2D is fine, the result is the
  snapshot's \<^verbatim>\<open>FEATURE_STATUS_OK\<close> with an empty failure id, not the stored status
  and failure id.
\<close>

theorem stored_denied_is_not_returned:
  "GetPrefNameForFeature example_defs 1 = Some ''gfx.blacklist.direct2d'' \<and>
   Preferences_GetInt (overridden_state FEATURE_DENIED) ''gfx.blacklist.direct2d'' =
     Some FEATURE_DENIED \<and>
   Preferences_GetCString (overridden_state FEATURE_DENIED) ''gfx.blacklist.direct2d.failureid'' =
     Some ''FEATURE_FAILURE_STORED'' \<and>
   returned (GetFeatureStatus windows_build example_h example_g example_defs content_machine
     (overridden_state FEATURE_DENIED) 1 [] FEATURE_STATUS_UNKNOWN) =
   Some (NS_OK, FEATURE_STATUS_OK, [])"
  by code_simp

text \<open>
  C5, amended: when all features are not forced (a release or beta build, or the
  setting at 0), for every feature with a stored status other than
  \<^verbatim>\<open>FEATURE_DENIED\<close>, \<^verbatim>\<open>GetFeatureStatus\<close> returns \<^verbatim>\<open>NS_OK\<close> with the stored
  status and with the stored failure id, or \<open>FEATURE_FAILURE_BLOCKLIST_PREF\<close> when
  no failure id is stored. The result depends on no rule list and the state is
  unchanged.
\<close>

theorem stored_override_is_returned:
  assumes "RELEASE_OR_BETA b \<or> gfx_blocklist_all_AtStartup m = 0"
    and "GetPrefNameForFeature d aFeature = Some prefname"
    and "Preferences_GetInt st prefname = Some v"
    and "v \<noteq> FEATURE_DENIED"
  shows "GetFeatureStatus b h g d m st aFeature aFailureId aStatus =
         Inr (NS_OK, v,
              case Preferences_GetCString st (prefname @ ''.failureid'') of
                Some failureValue \<Rightarrow> failureValue
              | None \<Rightarrow> ''FEATURE_FAILURE_BLOCKLIST_PREF'',
              st)"
  using assms
  by (auto simp: GetFeatureStatus_def GetPrefValueForFeature_def split: option.splits)

text \<open>Witness for C5: a stored \<^verbatim>\<open>FEATURE_BLOCKED_DEVICE\<close> with a stored failure id.\<close>

theorem stored_override_is_returned_witness:
  "(RELEASE_OR_BETA windows_build \<or> gfx_blocklist_all_AtStartup content_machine = 0) \<and>
   GetPrefNameForFeature example_defs 1 = Some ''gfx.blacklist.direct2d'' \<and>
   Preferences_GetInt (overridden_state FEATURE_BLOCKED_DEVICE) ''gfx.blacklist.direct2d'' =
     Some FEATURE_BLOCKED_DEVICE \<and>
   FEATURE_BLOCKED_DEVICE \<noteq> FEATURE_DENIED \<and>
   GetFeatureStatus windows_build example_h example_g example_defs content_machine
     (overridden_state FEATURE_BLOCKED_DEVICE) 1 [] FEATURE_STATUS_UNKNOWN =
   Inr (NS_OK, FEATURE_BLOCKED_DEVICE, ''FEATURE_FAILURE_STORED'',
        overridden_state FEATURE_BLOCKED_DEVICE)"
proof -
  have 1: "RELEASE_OR_BETA windows_build \<or> gfx_blocklist_all_AtStartup content_machine = 0"
    by code_simp
  have 2: "GetPrefNameForFeature example_defs 1 = Some ''gfx.blacklist.direct2d''"
    by code_simp
  have 3: "Preferences_GetInt (overridden_state FEATURE_BLOCKED_DEVICE) ''gfx.blacklist.direct2d'' =
     Some FEATURE_BLOCKED_DEVICE"
    by code_simp
  have 4: "FEATURE_BLOCKED_DEVICE \<noteq> FEATURE_DENIED"
    by simp
  have 5: "Preferences_GetCString (overridden_state FEATURE_BLOCKED_DEVICE)
             (''gfx.blacklist.direct2d'' @ ''.failureid'') = Some ''FEATURE_FAILURE_STORED''"
    by code_simp
  from stored_override_is_returned
    [OF 1 2 3 4, of example_h example_g "[]" FEATURE_STATUS_UNKNOWN] 1 2 3 5
  show ?thesis
    by simp
qed

subsection \<open>An empty downloaded batch\<close>

text \<open>
  C7: \<^verbatim>\<open>EvaluateDownloadedBlocklist\<close> on an empty list returns at once; the state,
  and with it every override and the suggested-version preference, is what it was.
\<close>

theorem empty_batch_leaves_state:
  "EvaluateDownloadedBlocklist b h g d m [] st = st"
  by (simp add: EvaluateDownloadedBlocklist_def)

subsection \<open>A record with an unrecognized status\<close>

lemma parse_key_value_featureStatus:
  "val \<notin> fst ` set (GfxInfoFeatureStatusDefs d) \<Longrightarrow>
   parse_key_value x h g d ''featureStatus'' val di =
     Some (di\<lparr>mFeatureStatus := FEATURE_STATUS_OK\<rparr>)"
  by (simp add: parse_key_value_def BlocklistFeatureStatusToGfxFeatureStatus_def find_name_None)

lemma parse_key_value_keeps_status:
  "key \<noteq> ''featureStatus'' \<Longrightarrow> parse_key_value x h g d key val di = Some di' \<Longrightarrow>
   mFeatureStatus di' = mFeatureStatus di"
  unfolding parse_key_value_def Let_def
  by (simp split: if_splits prod.splits) auto

lemma parse_pairs_append:
  "parse_pairs x h g d (xs @ ys) di =
     (case parse_pairs x h g d xs di of
        None \<Rightarrow> None
      | Some di1 \<Rightarrow> parse_pairs x h g d ys di1)"
  by (induction xs arbitrary: di) (auto simp: Let_def split: option.splits)

lemma length_2_eq: "length xs = 2 \<Longrightarrow> xs = [xs ! 0, xs ! 1]"
  by (cases xs; cases "tl xs") auto

lemma parse_pairs_keeps_status:
  "\<forall>keyValue \<in> set kvs. \<forall>val.
     ParseString x keyValue (CHR '':'') \<noteq> [''featureStatus'', val] \<Longrightarrow>
   parse_pairs x h g d kvs di = Some di' \<Longrightarrow> mFeatureStatus di' = mFeatureStatus di"
proof (induction kvs arbitrary: di)
  case Nil
  then show ?case
    by simp
next
  case (Cons kv kvs)
  from Cons.prems(2) obtain di1 where
    len: "length (ParseString x kv (CHR '':'')) = 2"
    and 1: "parse_key_value x h g d (ParseString x kv (CHR '':'') ! 0)
          (ParseString x kv (CHR '':'') ! 1) di = Some di1"
    and 2: "parse_pairs x h g d kvs di1 = Some di'"
    by (auto simp: Let_def split: if_splits option.splits)
  from len have "ParseString x kv (CHR '':'') =
      [ParseString x kv (CHR '':'') ! 0, ParseString x kv (CHR '':'') ! 1]"
    by (rule length_2_eq)
  with Cons.prems(1) have "ParseString x kv (CHR '':'') ! 0 \<noteq> ''featureStatus''"
    by (metis list.set_intros(1))
  then have "mFeatureStatus di1 = mFeatureStatus di"
    using 1 by (rule parse_key_value_keeps_status)
  moreover from Cons.prems(1) 2 have "mFeatureStatus di' = mFeatureStatus di1"
    by (intro Cons.IH) simp_all
  ultimately show ?case
    by simp
qed

lemma parse_pairs_featureStatus:
  assumes "ParseString x keyValue (CHR '':'') = [''featureStatus'', val]"
    and "val \<noteq> []" and "val \<notin> fst ` set (GfxInfoFeatureStatusDefs d)"
  shows "parse_pairs x h g d (keyValue # rest) di =
         parse_pairs x h g d rest (di\<lparr>mFeatureStatus := FEATURE_STATUS_OK\<rparr>)"
  using assms by (simp add: parse_key_value_featureStatus)

lemma evaluate_feature_clears:
  assumes "0 < feature" and "\<not> sShutdownOccurred st" and "\<not> adapter_unresolved m"
    and "\<not> returns_before_scan m" and "aDriverInfo \<noteq> []"
    and "scan_loop (loop_body b h g m (GetData m st) feature os False) aDriverInfo =
         Loop_break r True"
    and "mFeatureStatus r = FEATURE_STATUS_OK"
    and "GetPrefNameForFeature d feature = Some prefname"
  shows "prefs (evaluate_feature b h g d m aDriverInfo os feature st) prefname = None"
proof -
  from assms(7) have u: "mFeatureStatus r \<noteq> FEATURE_STATUS_UNKNOWN"
    by simp
  have "GetFeatureStatusImpl b h g m st feature FEATURE_STATUS_UNKNOWN [] aDriverInfo []
          (Some os) =
        (NS_OK, FEATURE_STATUS_OK, [],
         if mRuleId r \<noteq> [] then mRuleId r else ''FEATURE_FAILURE_DL_BLOCKLIST_NO_ID'',
         GetData m st)"
    using assms(3,5,7)
    by (simp add: Impl_resolving [OF assms(1,2)] Find_assigned [OF assms(4) assms(6) u])
  then show ?thesis
    using assms(8)
    by (simp add: evaluate_feature_def RemovePrefForFeature_def Preferences_ClearUser_def)
qed

subsection \<open>The replay of a batch, feature by feature\<close>

lemma GetData_keeps:
  "prefs (GetData m st) = prefs st" "sShutdownOccurred (GetData m st) = sShutdownOccurred st"
  by (simp_all add: GetData_def Let_def)

lemma GetData_screen_cong:
  "screen_members st = screen_members st' \<Longrightarrow>
   screen_members (GetData m st) = screen_members (GetData m st')"
  by (auto simp: GetData_def Let_def screen_members_def)

lemma GetData_screen_idem:
  "screen_members (GetData m (GetData m st)) = screen_members (GetData m st)"
  by (auto simp: GetData_def Let_def screen_members_def)

lemma loop_body_screen_cong:
  "screen_members st = screen_members st' \<Longrightarrow>
   loop_body b h g m st aFeature os aForAllowing = loop_body b h g m st' aFeature os aForAllowing"
  by (rule ext) (simp add: loop_body_def rule_head_passes_def refreshRateStatus_def screen_members_def)

lemma Impl_state:
  "snd (snd (snd (snd (GetFeatureStatusImpl b h g m st aFeature aStatus aSuggestedVersion
     aDriverInfo aFailureId aOS)))) = st \<or>
   snd (snd (snd (snd (GetFeatureStatusImpl b h g m st aFeature aStatus aSuggestedVersion
     aDriverInfo aFailureId aOS)))) = GetData m st"
  by (simp add: GetFeatureStatusImpl_def Let_def split: prod.splits)

lemma pref_writes_keep:
  "screen_members (SetPrefValueForFeature d m feature v failureId st) = screen_members st"
  "screen_members (RemovePrefForFeature d m feature st) = screen_members st"
  "screen_members (SetPrefValueForDriverVersion version st) = screen_members st"
  "screen_members (RemovePrefForDriverVersion st) = screen_members st"
  "sShutdownOccurred (SetPrefValueForFeature d m feature v failureId st) = sShutdownOccurred st"
  "sShutdownOccurred (RemovePrefForFeature d m feature st) = sShutdownOccurred st"
  "sShutdownOccurred (SetPrefValueForDriverVersion version st) = sShutdownOccurred st"
  "sShutdownOccurred (RemovePrefForDriverVersion st) = sShutdownOccurred st"
  by (simp_all add: SetPrefValueForFeature_def RemovePrefForFeature_def
      SetPrefValueForDriverVersion_def RemovePrefForDriverVersion_def Preferences_SetInt_def
      Preferences_SetCString_def Preferences_ClearUser_def clear_sFeatureStatus_def
      screen_members_def Let_def split: option.splits)

lemma pref_writes_frame:
  assumes "name \<notin> set (written_prefs d feature)"
  shows "prefs (SetPrefValueForFeature d m feature v failureId st) name = prefs st name"
    and "prefs (RemovePrefForFeature d m feature st) name = prefs st name"
    and "prefs (SetPrefValueForDriverVersion version st) name = prefs st name"
    and "prefs (RemovePrefForDriverVersion st) name = prefs st name"
  using assms
  by (auto simp: written_prefs_def SetPrefValueForFeature_def RemovePrefForFeature_def
      SetPrefValueForDriverVersion_def RemovePrefForDriverVersion_def Preferences_SetInt_def
      Preferences_SetCString_def Preferences_ClearUser_def clear_sFeatureStatus_def
      Let_def split: option.splits)

lemma evaluate_feature_cases:
  obtains st1 status suggestedVersion failureId where
    "st1 = st \<or> st1 = GetData m st"
    and "evaluate_feature b h g d m aDriverInfo os feature st =
           RemovePrefForFeature d m feature st1 \<or>
         evaluate_feature b h g d m aDriverInfo os feature st =
           SetPrefValueForFeature d m feature status failureId st1 \<or>
         evaluate_feature b h g d m aDriverInfo os feature st =
           SetPrefValueForFeature d m feature status failureId
             (SetPrefValueForDriverVersion suggestedVersion st1) \<or>
         evaluate_feature b h g d m aDriverInfo os feature st =
           SetPrefValueForFeature d m feature status failureId (RemovePrefForDriverVersion st1)"
proof -
  obtain rv status suggestedVersion failureId st1 where
    r: "GetFeatureStatusImpl b h g m st feature FEATURE_STATUS_UNKNOWN [] aDriverInfo []
          (Some os) = (rv, status, suggestedVersion, failureId, st1)"
    by (metis prod_cases5)
  with Impl_state [of b h g m st feature FEATURE_STATUS_UNKNOWN "[]" aDriverInfo "[]" "Some os"]
  have s: "st1 = st \<or> st1 = GetData m st"
    by simp
  from r have "evaluate_feature b h g d m aDriverInfo os feature st =
           RemovePrefForFeature d m feature st1 \<or>
         evaluate_feature b h g d m aDriverInfo os feature st =
           SetPrefValueForFeature d m feature status failureId st1 \<or>
         evaluate_feature b h g d m aDriverInfo os feature st =
           SetPrefValueForFeature d m feature status failureId
             (SetPrefValueForDriverVersion suggestedVersion st1) \<or>
         evaluate_feature b h g d m aDriverInfo os feature st =
           SetPrefValueForFeature d m feature status failureId (RemovePrefForDriverVersion st1)"
    by (cases status) (simp_all add: evaluate_feature_def)
  with s show ?thesis
    by (rule that)
qed

lemma evaluate_feature_shutdown:
  "sShutdownOccurred (evaluate_feature b h g d m aDriverInfo os feature st) = sShutdownOccurred st"
  by (rule evaluate_feature_cases [of st m b h g d aDriverInfo os feature])
    (auto simp: pref_writes_keep GetData_keeps)

lemma evaluate_feature_screen:
  "screen_members (evaluate_feature b h g d m aDriverInfo os feature st) = screen_members st \<or>
   screen_members (evaluate_feature b h g d m aDriverInfo os feature st) =
     screen_members (GetData m st)"
  by (rule evaluate_feature_cases [of st m b h g d aDriverInfo os feature])
    (auto simp: pref_writes_keep)

lemma evaluate_feature_frame:
  assumes "name \<notin> set (written_prefs d feature)"
  shows "prefs (evaluate_feature b h g d m aDriverInfo os feature st) name = prefs st name"
  by (rule evaluate_feature_cases [of st m b h g d aDriverInfo os feature])
    (auto simp: pref_writes_frame [OF assms] GetData_keeps)

lemma fold_evaluate_frame:
  "\<forall>feature \<in> set features. name \<notin> set (written_prefs d feature) \<Longrightarrow>
   prefs (fold (evaluate_feature b h g d m aDriverInfo os) features st) name = prefs st name"
  by (induction features arbitrary: st) (simp_all add: evaluate_feature_frame)

lemma fold_evaluate_shutdown:
  "sShutdownOccurred (fold (evaluate_feature b h g d m aDriverInfo os) features st) =
   sShutdownOccurred st"
  by (induction features arbitrary: st) (simp_all add: evaluate_feature_shutdown)

lemma fold_evaluate_screen:
  "screen_members (GetData m s) = screen_members (GetData m st) \<Longrightarrow>
   screen_members (GetData m (fold (evaluate_feature b h g d m aDriverInfo os) features s)) =
   screen_members (GetData m st)"
proof (induction features arbitrary: s)
  case Nil
  then show ?case
    by simp
next
  case (Cons feature features)
  have "screen_members (GetData m (evaluate_feature b h g d m aDriverInfo os feature s)) =
        screen_members (GetData m st)"
    using evaluate_feature_screen [of b h g d m aDriverInfo os feature s] Cons.prems
      GetData_screen_cong [of "evaluate_feature b h g d m aDriverInfo os feature s" s m]
      GetData_screen_cong [of "evaluate_feature b h g d m aDriverInfo os feature s" "GetData m s" m]
      GetData_screen_idem [of m s]
    by auto
  then show ?case
    by (simp add: Cons.IH)
qed

lemma replay_clears:
  assumes range: "FEATURE_START g \<le> feature" "feature < FEATURE_COUNT g"
    and pos: "0 < feature" and sd: "\<not> sShutdownOccurred st"
    and ad: "\<not> adapter_unresolved m" and rb: "\<not> returns_before_scan m"
    and win: "scan_loop (loop_body b h g m (GetData m st) feature (GetOperatingSystem m) False)
                aDriverInfo = Loop_break r True"
    and ok: "mFeatureStatus r = FEATURE_STATUS_OK"
    and pn: "GetPrefNameForFeature d feature = Some prefname"
    and later: "\<forall>feature' \<in> set [feature + 1 .. FEATURE_COUNT g - 1].
                  prefname \<notin> set (written_prefs d feature')"
  shows "prefs (EvaluateDownloadedBlocklist b h g d m aDriverInfo st) prefname = None"
proof -
  let ?ev = "evaluate_feature b h g d m aDriverInfo (GetOperatingSystem m)"
  let ?s1 = "fold ?ev [FEATURE_START g .. feature - 1] st"
  from win have ne: "aDriverInfo \<noteq> []"
    by auto
  from range have split: "[FEATURE_START g .. FEATURE_COUNT g - 1] =
      [FEATURE_START g .. feature - 1] @ feature # [feature + 1 .. FEATURE_COUNT g - 1]"
    by (intro upto_split3) simp_all
  have sd1: "\<not> sShutdownOccurred ?s1"
    using sd by (simp add: fold_evaluate_shutdown)
  have "screen_members (GetData m ?s1) = screen_members (GetData m st)"
    by (rule fold_evaluate_screen) simp
  then have "loop_body b h g m (GetData m ?s1) feature (GetOperatingSystem m) False =
             loop_body b h g m (GetData m st) feature (GetOperatingSystem m) False"
    by (rule loop_body_screen_cong)
  with win have win1:
    "scan_loop (loop_body b h g m (GetData m ?s1) feature (GetOperatingSystem m) False)
       aDriverInfo = Loop_break r True"
    by simp
  have "prefs (?ev feature ?s1) prefname = None"
    using pos sd1 ad rb ne win1 ok pn by (rule evaluate_feature_clears)
  then have "prefs (fold ?ev [feature + 1 .. FEATURE_COUNT g - 1] (?ev feature ?s1)) prefname = None"
    using later by (simp add: fold_evaluate_frame)
  then show ?thesis
    using ne by (simp add: EvaluateDownloadedBlocklist_def split)
qed

text \<open>
  C10: take a record with a pair \<^verbatim>\<open>featureStatus:val\<close> in which \<open>val\<close> is not empty
  and is no status name of the definitions table. The pair is never the reason to
  reject the record: its branch of the parser answers with the rule whose status is
  \<^verbatim>\<open>FEATURE_STATUS_OK\<close>, whatever the rule was, and the parser's answer for the
  record is its answer for the pairs after it, started from the result of the pairs
  before it with the status \<^verbatim>\<open>FEATURE_STATUS_OK\<close>. If no pair after it is a
  \<^verbatim>\<open>featureStatus\<close> pair and the record yields the rule \<open>r\<close>, the status of \<open>r\<close> is
  \<^verbatim>\<open>FEATURE_STATUS_OK\<close>, which is not an allow status; and when \<open>r\<close> wins the
  block-mode scan of a downloaded batch for a feature, \<^verbatim>\<open>EvaluateDownloadedBlocklist\<close>
  on that batch leaves the feature without an override, whatever was stored before
  (the preference names of the features after it being different from this one's).
\<close>

theorem unrecognized_featureStatus_is_STATUS_OK:
  assumes "Split x aBlocklistEntry (CHR 0x09) = before @ keyValue # after"
    and "ParseString x keyValue (CHR '':'') = [''featureStatus'', val]"
    and "val \<noteq> []"
    and "val \<notin> fst ` set (GfxInfoFeatureStatusDefs d)"
  shows "parse_key_value x h g d ''featureStatus'' val di =
           Some (di\<lparr>mFeatureStatus := FEATURE_STATUS_OK\<rparr>) \<and>
         BlocklistEntryToDriverInfo x h g d aBlocklistEntry new_di =
           (case parse_pairs x h g d before
                   (new_di\<lparr>mRuleId := ''FEATURE_FAILURE_DL_BLOCKLIST_NO_ID''\<rparr>) of
              None \<Rightarrow> None
            | Some di1 \<Rightarrow>
                parse_pairs x h g d after (di1\<lparr>mFeatureStatus := FEATURE_STATUS_OK\<rparr>)) \<and>
         ((\<forall>kv \<in> set after. \<forall>val'.
              ParseString x kv (CHR '':'') \<noteq> [''featureStatus'', val']) \<and>
          BlocklistEntryToDriverInfo x h g d aBlocklistEntry new_di = Some r \<longrightarrow>
            mFeatureStatus r = FEATURE_STATUS_OK \<and>
            MatchingAllowStatus (mFeatureStatus r) = False \<and>
            (FEATURE_START g \<le> feature \<and> feature < FEATURE_COUNT g \<and> 0 < feature \<and>
             \<not> sShutdownOccurred st \<and> \<not> adapter_unresolved m \<and> \<not> returns_before_scan m \<and>
             scan_loop (loop_body b h g m (GetData m st) feature (GetOperatingSystem m) False)
               aDriverInfo = Loop_break r True \<and>
             GetPrefNameForFeature d feature = Some prefname \<and>
             (\<forall>feature' \<in> set [feature + 1 .. FEATURE_COUNT g - 1].
                prefname \<notin> set (written_prefs d feature')) \<longrightarrow>
             prefs (EvaluateDownloadedBlocklist b h g d m aDriverInfo st) prefname = None))"
proof -
  have 0: "parse_key_value x h g d ''featureStatus'' val di =
           Some (di\<lparr>mFeatureStatus := FEATURE_STATUS_OK\<rparr>)"
    using assms(4) by (rule parse_key_value_featureStatus)
  have 1: "BlocklistEntryToDriverInfo x h g d aBlocklistEntry new_di =
           (case parse_pairs x h g d before
                   (new_di\<lparr>mRuleId := ''FEATURE_FAILURE_DL_BLOCKLIST_NO_ID''\<rparr>) of
              None \<Rightarrow> None
            | Some di1 \<Rightarrow>
                parse_pairs x h g d after (di1\<lparr>mFeatureStatus := FEATURE_STATUS_OK\<rparr>))"
    unfolding BlocklistEntryToDriverInfo_def assms(1) parse_pairs_append
      parse_pairs_featureStatus [OF assms(2,3,4)] ..
  have 2: "mFeatureStatus r = FEATURE_STATUS_OK"
    if a: "\<forall>kv \<in> set after. \<forall>val'.
              ParseString x kv (CHR '':'') \<noteq> [''featureStatus'', val']"
      and e: "BlocklistEntryToDriverInfo x h g d aBlocklistEntry new_di = Some r"
  proof -
    from 1 e obtain di1 where
      "parse_pairs x h g d after (di1\<lparr>mFeatureStatus := FEATURE_STATUS_OK\<rparr>) = Some r"
      by (auto split: option.splits)
    with a show ?thesis
      by (auto dest: parse_pairs_keeps_status)
  qed
  from 0 1 2 show ?thesis
    by (auto intro: replay_clears)
qed

text \<open>Witness for C10: the record \<^verbatim>\<open>os:WINNT 10.0\<close>, \<^verbatim>\<open>featureStatus:BLOCKED_DRIVER\<close>,
  \<^verbatim>\<open>feature:GPU_PROCESS\<close> is accepted with status \<^verbatim>\<open>FEATURE_STATUS_OK\<close>; its rule
  wins for the GPU process on the example machine, and the replay of the batch that
  holds it removes the stored override of the GPU process.\<close>

theorem unrecognized_featureStatus_is_STATUS_OK_witness:
  "Split example_xpcom misspelt_status_record (CHR 0x09) =
     [''os:WINNT 10.0''] @ ''featureStatus:BLOCKED_DRIVER'' # [''feature:GPU_PROCESS''] \<and>
   ParseString example_xpcom ''featureStatus:BLOCKED_DRIVER'' (CHR '':'') =
     [''featureStatus'', ''BLOCKED_DRIVER''] \<and>
   ''BLOCKED_DRIVER'' \<notin> fst ` set (GfxInfoFeatureStatusDefs example_defs) \<and>
   BlocklistEntryToDriverInfo example_xpcom example_h example_g example_defs
     misspelt_status_record example_rule =
     Some (gpu_process_rule\<lparr>mFeatureStatus := FEATURE_STATUS_OK,
             mRuleId := ''FEATURE_FAILURE_DL_BLOCKLIST_NO_ID''\<rparr>) \<and>
   Preferences_GetInt gpu_process_overridden ''gfx.blacklist.gpu.process'' =
     Some FEATURE_BLOCKED_DEVICE \<and>
   Preferences_GetInt
     (EvaluateDownloadedBlocklist windows_build example_h example_g example_defs example_machine
        [gpu_process_rule\<lparr>mFeatureStatus := FEATURE_STATUS_OK,
           mRuleId := ''FEATURE_FAILURE_DL_BLOCKLIST_NO_ID''\<rparr>]
        gpu_process_overridden)
     ''gfx.blacklist.gpu.process'' = None"
proof -
  let ?r = "gpu_process_rule\<lparr>mFeatureStatus := FEATURE_STATUS_OK,
              mRuleId := ''FEATURE_FAILURE_DL_BLOCKLIST_NO_ID''\<rparr>"
  have 1: "Split example_xpcom misspelt_status_record (CHR 0x09) =
     [''os:WINNT 10.0''] @ ''featureStatus:BLOCKED_DRIVER'' # [''feature:GPU_PROCESS'']"
    by code_simp
  have 2: "ParseString example_xpcom ''featureStatus:BLOCKED_DRIVER'' (CHR '':'') =
     [''featureStatus'', ''BLOCKED_DRIVER'']"
    by code_simp
  have 3: "''BLOCKED_DRIVER'' \<noteq> []"
    by simp
  have 4: "''BLOCKED_DRIVER'' \<notin> fst ` set (GfxInfoFeatureStatusDefs example_defs)"
    by code_simp
  have "ParseString example_xpcom ''feature:GPU_PROCESS'' (CHR '':'') =
          [''feature'', ''GPU_PROCESS'']"
    by code_simp
  then have 5: "\<forall>kv \<in> set [''feature:GPU_PROCESS'']. \<forall>val'.
                  ParseString example_xpcom kv (CHR '':'') \<noteq> [''featureStatus'', val']"
    by simp
  have 6: "BlocklistEntryToDriverInfo example_xpcom example_h example_g example_defs
     misspelt_status_record example_rule = Some ?r"
    by code_simp
  have 7: "FEATURE_START example_g \<le> 2 \<and> 2 < FEATURE_COUNT example_g \<and> 0 < (2 :: int)"
    by code_simp
  have 8: "\<not> sShutdownOccurred gpu_process_overridden"
    by code_simp
  have 9: "\<not> adapter_unresolved example_machine"
    by code_simp
  have 10: "\<not> returns_before_scan example_machine"
    by code_simp
  have 11: "scan_loop (loop_body windows_build example_h example_g example_machine
       (GetData example_machine gpu_process_overridden) 2 (GetOperatingSystem example_machine)
       False) [?r] = Loop_break ?r True"
    by code_simp
  have 12: "GetPrefNameForFeature example_defs 2 = Some ''gfx.blacklist.gpu.process''"
    by code_simp
  have 13: "\<forall>feature' \<in> set [2 + 1 .. FEATURE_COUNT example_g - 1].
              ''gfx.blacklist.gpu.process'' \<notin> set (written_prefs example_defs feature')"
    by code_simp
  have 14: "Preferences_GetInt gpu_process_overridden ''gfx.blacklist.gpu.process'' =
     Some FEATURE_BLOCKED_DEVICE"
    by code_simp
  from unrecognized_featureStatus_is_STATUS_OK
    [OF 1 2 3 4, where h = example_h and g = example_g and new_di = example_rule
      and r = ?r and feature = 2 and st = gpu_process_overridden and m = example_machine
      and b = windows_build and aDriverInfo = "[?r]"
      and prefname = "''gfx.blacklist.gpu.process''"]
    5 6 7 8 9 10 11 12 13
  have "prefs (EvaluateDownloadedBlocklist windows_build example_h example_g example_defs
          example_machine [?r] gpu_process_overridden) ''gfx.blacklist.gpu.process'' = None"
    by blast
  then have 15: "Preferences_GetInt
     (EvaluateDownloadedBlocklist windows_build example_h example_g example_defs example_machine
        [?r] gpu_process_overridden) ''gfx.blacklist.gpu.process'' = None"
    by (simp add: Preferences_GetInt_def)
  from 1 2 4 6 14 15 show ?thesis
    by blast
qed

end
